theory Spec2Isabelle
  imports Main "HOL-Library.Word" "HOL-Library.AList"
begin

section \<open>Events, tags and the helpers of the event library\<close>

text \<open>
  The group aggregate of package nip29 (the \<open>Group\<close> struct with its projections and
  merges, and the moderation actions of \<open>nip29/relay.go\<close>) works on events of the
  surrounding library. An event is used here through four fields only: its kind, its
  creation time, its content and its tags. A tag is a list of strings, the first one being
  the key. A timestamp is a signed 64-bit integer (\<open>type Timestamp int64\<close>); the code only
  compares timestamps, with the signed order of Go.
\<close>

type_synonym Timestamp = "64 word"
type_synonym Tag = "string list"
type_synonym Tags = "Tag list"

record Event =
  Kind :: int
  CreatedAt :: Timestamp
  Content :: string
  Tags :: Tags

text \<open>
  Modelled from the spec: the kind numbers \<open>nostr.KindSimpleGroup...\<close> are declared outside
  the source files at hand, and the spec treats them as opaque discriminators. They are fixed
  integers; no statement below depends on their values.
\<close>

definition KindSimpleGroupEditMetadata :: int where
  "KindSimpleGroupEditMetadata = 9002"


definition KindSimpleGroupMetadata :: int where
  "KindSimpleGroupMetadata = 39000"

definition KindSimpleGroupAdmins :: int where
  "KindSimpleGroupAdmins = 39001"

definition KindSimpleGroupMembers :: int where
  "KindSimpleGroupMembers = 39002"

text \<open>\<open>strings.HasPrefix s prefix\<close> of the Go standard library.\<close>

fun HasPrefix :: "string \<Rightarrow> string \<Rightarrow> bool" where
  "HasPrefix s [] = True"
| "HasPrefix [] (p # ps) = False"
| "HasPrefix (c # s) (p # ps) = (c = p \<and> HasPrefix s ps)"

text \<open>
  Modelled from the spec: \<open>Tag.StartsWith\<close>, \<open>Tags.GetFirst\<close> and \<open>Tags.GetD\<close> belong to
  the event library and are not among the source files. Section 6 of the spec gives the tag
  shapes: a key followed by its value (\<open>d\<close> = group id, \<open>name\<close>, \<open>about\<close>, \<open>picture\<close>) and
  bare markers (\<open>public\<close>, \<open>private\<close>, \<open>open\<close>, \<open>closed\<close>). A tag matches a pattern when it
  is at least as long as the pattern, agrees with it on every element before the last, and
  its element at the last position of the pattern begins with the pattern's last element;
  so the pattern \<open>["name", ""]\<close> of the source finds a tag with key \<open>name\<close> that carries a
  value, and the pattern \<open>["private"]\<close> finds a marker. The source never passes an empty
  pattern. \<open>GetFirst\<close> returns the first matching tag, or nil (here \<open>None\<close>); \<open>GetD\<close>
  returns the value of the first \<open>d\<close> tag, or the empty string.
\<close>

fun StartsWith :: "Tag \<Rightarrow> string list \<Rightarrow> bool" where
  "StartsWith tag [] = False"
| "StartsWith [] (p # ps) = False"
| "StartsWith (t # ts) [p] = HasPrefix t p"
| "StartsWith (t # ts) (p # q # ps) = (p = t \<and> StartsWith ts (q # ps))"

fun GetFirst :: "Tags \<Rightarrow> string list \<Rightarrow> Tag option" where
  "GetFirst [] tagPrefix = None"
| "GetFirst (v # rest) tagPrefix =
     (if StartsWith v tagPrefix then Some v else GetFirst rest tagPrefix)"

definition GetD :: "Tags \<Rightarrow> string" where
  "GetD tags = (case GetFirst tags [''d'', ''''] of Some v \<Rightarrow> v ! 1 | None \<Rightarrow> '''')"

text \<open>
  Modelled from the spec: \<open>nostr.IsValidPublicKeyHex\<close> is not among the source files. The
  spec calls a participant identifier a fixed-length public identity token; it is taken
  here as 64 lower-case hexadecimal digits (a 32-byte key).
\<close>

definition IsValidPublicKeyHex :: "string \<Rightarrow> bool" where
  "IsValidPublicKeyHex pk =
     (length pk = 64 \<and> list_all (\<lambda>c. c \<in> set ''0123456789abcdef'') pk)"

section \<open>Go maps, slices and panics\<close>

text \<open>
  A Go map is kept as an association list; the order of the list stands for the order in
  which \<open>range\<close> visits the entries (Go leaves that order open). The nil map is \<open>None\<close>:
  it reads as an empty map, \<open>delete\<close> on it does nothing, and an assignment to one of its
  entries panics. Writing past the length of a slice panics as well.
\<close>

datatype panic =
    AssignmentToEntryInNilMap
  | IndexOutOfRange nat nat

type_synonym ('k, 'v) gomap = "('k \<times> 'v) list option"

fun map_lookup :: "('k, 'v) gomap \<Rightarrow> 'k \<Rightarrow> 'v option" where
  "map_lookup None k = None"
| "map_lookup (Some al) k = map_of al k"

fun map_assign :: "('k, 'v) gomap \<Rightarrow> 'k \<Rightarrow> 'v \<Rightarrow> panic + ('k, 'v) gomap" where
  "map_assign None k v = Inl AssignmentToEntryInNilMap"
| "map_assign (Some al) k v = Inr (Some (AList.update k v al))"

fun map_delete :: "('k, 'v) gomap \<Rightarrow> 'k \<Rightarrow> ('k, 'v) gomap" where
  "map_delete None k = None"
| "map_delete (Some al) k = Some (AList.delete k al)"

fun map_entries :: "('k, 'v) gomap \<Rightarrow> ('k \<times> 'v) list" where
  "map_entries None = []"
| "map_entries (Some al) = al"

definition map_len :: "('k, 'v) gomap \<Rightarrow> nat" where
  "map_len m = length (map_entries m)"

definition slice_assign :: "'a list \<Rightarrow> nat \<Rightarrow> 'a \<Rightarrow> panic + 'a list" where
  "slice_assign xs i v =
     (if i < length xs then Inr (xs[i := v]) else Inl (IndexOutOfRange i (length xs)))"

section \<open>Permissions, roles and the group aggregate\<close>

type_synonym Permission = string

definition PermAddUser :: Permission where
  "PermAddUser = ''add-user''"

definition PermEditMetadata :: Permission where
  "PermEditMetadata = ''edit-metadata''"

definition PermDeleteEvent :: Permission where
  "PermDeleteEvent = ''delete-event''"

definition PermRemoveUser :: Permission where
  "PermRemoveUser = ''remove-user''"

definition PermAddPermission :: Permission where
  "PermAddPermission = ''add-permission''"

definition PermRemovePermission :: Permission where
  "PermRemovePermission = ''remove-permission''"

definition PermEditGroupStatus :: Permission where
  "PermEditGroupStatus = ''edit-group-status''"

text \<open>
  A role has a name and a set of permissions, \<open>map[Permission]struct{}\<close>. The members of a
  group hold pointers to roles, \<open>map[string]*Role\<close>, so two members may share one role
  object and a change made through one of them shows through the other. Role objects
  therefore live in a store of cells, and a member holds either the nil pointer or the
  address of a cell. \<open>EmptyRole\<close> is the nil pointer (\<open>EmptyRole *Role = nil\<close>).
\<close>

record Role =
  Name :: string
  Permissions :: "(Permission, unit) gomap"

datatype RolePtr = NilRole | RoleAt nat

abbreviation EmptyRole :: RolePtr where
  "EmptyRole \<equiv> NilRole"

record Heap =
  cells :: "nat \<Rightarrow> Role"
  fresh :: nat

text \<open>\<open>&Role{...}\<close>: the new object takes the next unused address.\<close>

definition new_role :: "Role \<Rightarrow> Heap \<Rightarrow> nat \<times> Heap" where
  "new_role r h = (fresh h, h\<lparr>cells := (cells h)(fresh h := r), fresh := Suc (fresh h)\<rparr>)"

record Group =
  ID :: string
  Name :: string
  Picture :: string
  About :: string
  Members :: "(string, RolePtr) gomap"
  Private :: bool
  Closed :: bool
  LastMetadataUpdate :: Timestamp
  LastAdminsUpdate :: Timestamp
  LastMembersUpdate :: Timestamp

text \<open>The zero value of \<open>Group\<close>, from which a caller starts; its member map is nil.\<close>

definition Group_zero :: Group where
  "Group_zero = \<lparr>ID = '''', Name = '''', Picture = '''', About = '''', Members = None,
     Private = False, Closed = False,
     LastMetadataUpdate = 0, LastAdminsUpdate = 0, LastMembersUpdate = 0\<rparr>"

text \<open>The least timestamp, \<open>math.MinInt64\<close>.\<close>

definition Timestamp_min :: Timestamp where
  "Timestamp_min = - (2 ^ 63)"

section \<open>Projections of the aggregate to events\<close>

text \<open>
  The receiver \<open>group\<close> of the methods is written \<open>grp\<close> in the definitions. The
  admin-list projection reads the role objects, so it takes the store as well.
\<close>

definition ToMetadataEvent :: "Group \<Rightarrow> Event" where
  "ToMetadataEvent grp =
     \<lparr>Kind = KindSimpleGroupMetadata,
      CreatedAt = LastMetadataUpdate grp,
      Content = About grp,
      Tags = [[''d'', ID grp]]
        @ (if Name grp \<noteq> '''' then [[''name'', Name grp]] else [])
        @ (if About grp \<noteq> '''' then [[''about'', Name grp]] else [])
        @ (if Picture grp \<noteq> '''' then [[''picture'', Picture grp]] else [])
        @ (if Private grp then [[''private'']] else [[''public'']])
        @ (if Closed grp then [[''closed'']] else [[''open'']])\<rparr>"

text \<open>
  The tag of one admin. The slice is made with length 0 (\<open>make([]string, 0, 3+len(...))\<close>)
  and then written at the indices 0, 1 and 2 before the permissions are appended.
\<close>

definition admin_tag :: "string \<Rightarrow> Role \<Rightarrow> panic + Tag" where
  "admin_tag member role =
     (case slice_assign [] 0 ''p'' of
        Inl e \<Rightarrow> Inl e
      | Inr tag0 \<Rightarrow>
          (case slice_assign tag0 1 member of
             Inl e \<Rightarrow> Inl e
           | Inr tag1 \<Rightarrow>
               (case slice_assign tag1 2 (Role.Name role) of
                  Inl e \<Rightarrow> Inl e
                | Inr tag2 \<Rightarrow> Inr (tag2 @ map fst (map_entries (Role.Permissions role))))))"

fun admins_tags :: "Heap \<Rightarrow> (string \<times> RolePtr) list \<Rightarrow> Tags \<Rightarrow> panic + Tags" where
  "admins_tags h [] tags = Inr tags"
| "admins_tags h ((member, NilRole) # rest) tags = admins_tags h rest tags"
| "admins_tags h ((member, RoleAt p) # rest) tags =
     (case admin_tag member (cells h p) of
        Inl e \<Rightarrow> Inl e
      | Inr tag \<Rightarrow> admins_tags h rest (tags @ [tag]))"

definition ToAdminsEvent :: "Heap \<Rightarrow> Group \<Rightarrow> panic + Event" where
  "ToAdminsEvent h grp =
     (case admins_tags h (map_entries (Members grp)) [[''d'', ID grp]] of
        Inl e \<Rightarrow> Inl e
      | Inr tags \<Rightarrow>
          Inr \<lparr>Kind = KindSimpleGroupAdmins, CreatedAt = LastAdminsUpdate grp,
               Content = '''', Tags = tags\<rparr>)"

definition ToMembersEvent :: "Group \<Rightarrow> Event" where
  "ToMembersEvent grp =
     \<lparr>Kind = KindSimpleGroupMembers,
      CreatedAt = LastMembersUpdate grp,
      Content = '''',
      Tags = [[''d'', ID grp]]
        @ map (\<lambda>(member, role). [''p'', member]) (map_entries (Members grp))\<rparr>"

section \<open>Merging snapshot events into the aggregate\<close>

datatype error =
    ExpectedKind int int
  | OlderThanLastUpdate Timestamp Timestamp
  | MissingMetadataTags
  | Contradiction
  | PrivateGroupsNotYetSupported

text \<open>
  A merge returns its error (\<open>None\<close> for nil) together with the group as the call leaves
  it, so that what a failed call does to the group is part of the model.
\<close>

definition MergeInMetadataEvent :: "Event \<Rightarrow> Group \<Rightarrow> error option \<times> Group" where
  "MergeInMetadataEvent evt grp =
     (if Kind evt \<noteq> KindSimpleGroupMetadata
        then (Some (ExpectedKind KindSimpleGroupMetadata (Kind evt)), grp)
      else if CreatedAt evt \<le>s LastMetadataUpdate grp
        then (Some (OlderThanLastUpdate (CreatedAt evt) (LastMetadataUpdate grp)), grp)
      else
        let g1 = grp\<lparr>LastMetadataUpdate := CreatedAt evt\<rparr>;
            g2 = g1\<lparr>ID := GetD (Tags evt)\<rparr>;
            g3 = g2\<lparr>Name := ID g2\<rparr>;
            g4 = (case GetFirst (Tags evt) [''name'', ''''] of
                    Some tag \<Rightarrow> g3\<lparr>Name := tag ! 1\<rparr> | None \<Rightarrow> g3);
            g5 = (case GetFirst (Tags evt) [''about'', ''''] of
                    Some tag \<Rightarrow> g4\<lparr>About := tag ! 1\<rparr> | None \<Rightarrow> g4);
            g6 = (case GetFirst (Tags evt) [''picture'', ''''] of
                    Some tag \<Rightarrow> g5\<lparr>Picture := tag ! 1\<rparr> | None \<Rightarrow> g5);
            g7 = (case GetFirst (Tags evt) [''private''] of
                    Some tag \<Rightarrow> g6\<lparr>Private := True\<rparr> | None \<Rightarrow> g6);
            g8 = (case GetFirst (Tags evt) [''closed''] of
                    Some tag \<Rightarrow> g7\<lparr>Closed := True\<rparr> | None \<Rightarrow> g7)
        in (None, g8))"

text \<open>
  The loops over the tags of an admins or members event: every branch of the body is a
  \<open>continue\<close>, and the body ends without touching the group.
\<close>

fun admins_entries :: "Tags \<Rightarrow> Group \<Rightarrow> Group" where
  "admins_entries [] grp = grp"
| "admins_entries (tag # rest) grp =
     (if length tag < 3 then admins_entries rest grp
      else if tag ! 0 \<noteq> ''p'' then admins_entries rest grp
      else if \<not> IsValidPublicKeyHex (tag ! 1) then admins_entries rest grp
      else admins_entries rest grp)"

definition MergeInAdminsEvent :: "Event \<Rightarrow> Group \<Rightarrow> error option \<times> Group" where
  "MergeInAdminsEvent evt grp =
     (if Kind evt \<noteq> KindSimpleGroupAdmins
        then (Some (ExpectedKind KindSimpleGroupAdmins (Kind evt)), grp)
      else if CreatedAt evt \<le>s LastAdminsUpdate grp
        then (Some (OlderThanLastUpdate (CreatedAt evt) (LastAdminsUpdate grp)), grp)
      else (None, admins_entries (Tags evt) (grp\<lparr>LastAdminsUpdate := CreatedAt evt\<rparr>)))"

fun members_entries :: "Tags \<Rightarrow> Group \<Rightarrow> Group" where
  "members_entries [] grp = grp"
| "members_entries (tag # rest) grp =
     (if length tag < 2 then members_entries rest grp
      else if tag ! 0 \<noteq> ''p'' then members_entries rest grp
      else if \<not> IsValidPublicKeyHex (tag ! 1) then members_entries rest grp
      else members_entries rest grp)"

definition MergeInMembersEvent :: "Event \<Rightarrow> Group \<Rightarrow> error option \<times> Group" where
  "MergeInMembersEvent evt grp =
     (if Kind evt \<noteq> KindSimpleGroupMembers
        then (Some (ExpectedKind KindSimpleGroupMembers (Kind evt)), grp)
      else if CreatedAt evt \<le>s LastMembersUpdate grp
        then (Some (OlderThanLastUpdate (CreatedAt evt) (LastMembersUpdate grp)), grp)
      else (None, members_entries (Tags evt) (grp\<lparr>LastMembersUpdate := CreatedAt evt\<rparr>)))"

text \<open>
  A caller folds a stream of snapshot events into the aggregate, one merge per event, and
  drops the events that a merge refuses. \<open>snapshot_trace\<close> lists the states the aggregate
  goes through.
\<close>

datatype Snapshot = MetadataSnapshot Event | AdminsSnapshot Event | MembersSnapshot Event

fun merge_snapshot :: "Snapshot \<Rightarrow> Group \<Rightarrow> error option \<times> Group" where
  "merge_snapshot (MetadataSnapshot evt) grp = MergeInMetadataEvent evt grp"
| "merge_snapshot (AdminsSnapshot evt) grp = MergeInAdminsEvent evt grp"
| "merge_snapshot (MembersSnapshot evt) grp = MergeInMembersEvent evt grp"

fun snapshot_trace :: "Snapshot list \<Rightarrow> Group \<Rightarrow> Group list" where
  "snapshot_trace [] grp = [grp]"
| "snapshot_trace (s # ss) grp = grp # snapshot_trace ss (snd (merge_snapshot s grp))"

definition timestamps_le :: "Group \<Rightarrow> Group \<Rightarrow> bool" where
  "timestamps_le a b =
     (LastMetadataUpdate a \<le>s LastMetadataUpdate b
      \<and> LastAdminsUpdate a \<le>s LastAdminsUpdate b
      \<and> LastMembersUpdate a \<le>s LastMembersUpdate b)"

section \<open>Moderation actions\<close>

text \<open>
  The \<open>Action\<close> interface has seven implementations; each is a constructor here, with the
  fields of its struct in their order of declaration: \<open>EditMetadata\<close> carries
  \<open>NameValue\<close>, \<open>PictureValue\<close>, \<open>AboutValue\<close>, \<open>When\<close>, and \<open>EditGroupStatus\<close>
  carries \<open>Public\<close>, \<open>Private\<close>, \<open>Open\<close>, \<open>Closed\<close>, \<open>When\<close>; the others carry
  \<open>Targets\<close> and, for the two permission actions, \<open>Permissions\<close>.
\<close>

datatype Action =
    DeleteEvent "string list"
  | AddUser "string list"
  | RemoveUser "string list"
  | EditMetadata string string string Timestamp
  | AddPermission "string list" "Permission list"
  | RemovePermission "string list" "Permission list"
  | EditGroupStatus bool bool bool bool Timestamp

fun PermissionName :: "Action \<Rightarrow> Permission" where
  "PermissionName (DeleteEvent targets) = PermDeleteEvent"
| "PermissionName (AddUser targets) = PermAddUser"
| "PermissionName (RemoveUser targets) = PermRemoveUser"
| "PermissionName (EditMetadata n p a w) = PermEditMetadata"
| "PermissionName (AddPermission targets perms) = PermAddPermission"
| "PermissionName (RemovePermission targets perms) = PermRemovePermission"
| "PermissionName (EditGroupStatus pu pr op cl w) = PermEditGroupStatus"

subsection \<open>The factories of edit-metadata and edit-group-status events\<close>

definition EditMetadata_factory :: "Event \<Rightarrow> error + Action" where
  "EditMetadata_factory evt =
     (let name = GetFirst (Tags evt) [''name'', ''''];
          picture = GetFirst (Tags evt) [''picture'', ''''];
          about = GetFirst (Tags evt) [''about'', ''''];
          NameValue = (case name of Some t \<Rightarrow> t ! 1 | None \<Rightarrow> '''');
          PictureValue = (case picture of Some t \<Rightarrow> t ! 1 | None \<Rightarrow> '''');
          AboutValue = (case about of Some t \<Rightarrow> t ! 1 | None \<Rightarrow> '''');
          ok = (name \<noteq> None \<or> picture \<noteq> None \<or> about \<noteq> None)
      in if ok then Inr (EditMetadata NameValue PictureValue AboutValue (CreatedAt evt))
         else Inl MissingMetadataTags)"


subsection \<open>Applying an action to the aggregate\<close>

fun AddUser_Apply :: "string list \<Rightarrow> Group \<Rightarrow> panic + Group" where
  "AddUser_Apply [] grp = Inr grp"
| "AddUser_Apply (target # rest) grp =
     (case map_assign (Members grp) target EmptyRole of
        Inl e \<Rightarrow> Inl e
      | Inr m \<Rightarrow> AddUser_Apply rest (grp\<lparr>Members := m\<rparr>))"

fun RemoveUser_Apply :: "string list \<Rightarrow> Group \<Rightarrow> Group" where
  "RemoveUser_Apply [] grp = grp"
| "RemoveUser_Apply (target # rest) grp =
     RemoveUser_Apply rest (grp\<lparr>Members := map_delete (Members grp) target\<rparr>)"

definition EditMetadata_Apply :: "string \<Rightarrow> string \<Rightarrow> string \<Rightarrow> Timestamp \<Rightarrow> Group \<Rightarrow> Group" where
  "EditMetadata_Apply NameValue PictureValue AboutValue When grp =
     grp\<lparr>Name := NameValue, Picture := PictureValue, About := AboutValue,
         LastMetadataUpdate := When\<rparr>"

text \<open>
  \<open>role.Permissions[perm] = struct{}{}\<close> for every listed permission, on the role object
  at address \<open>p\<close>.
\<close>

fun add_permissions :: "Permission list \<Rightarrow> nat \<Rightarrow> Heap \<Rightarrow> panic + Heap" where
  "add_permissions [] p h = Inr h"
| "add_permissions (perm # rest) p h =
     (case map_assign (Role.Permissions (cells h p)) perm () of
        Inl e \<Rightarrow> Inl e
      | Inr ps \<Rightarrow>
          add_permissions rest p (h\<lparr>cells := (cells h)(p := (cells h p)\<lparr>Role.Permissions := ps\<rparr>)\<rparr>))"

text \<open>The body of the loop of \<open>AddPermission.Apply\<close> for one target.\<close>

definition AddPermission_target ::
    "Permission list \<Rightarrow> string \<Rightarrow> Group \<times> Heap \<Rightarrow> panic + Group \<times> Heap" where
  "AddPermission_target perms target s =
     (case s of (grp, h) \<Rightarrow>
        (case map_lookup (Members grp) target of
           Some (RoleAt p) \<Rightarrow>
             (case add_permissions perms p h of
                Inl e \<Rightarrow> Inl e
              | Inr h' \<Rightarrow> Inr (grp, h'))
         | _ \<Rightarrow>
             (case new_role \<lparr>Role.Name = '''', Permissions = Some []\<rparr> h of (p, h1) \<Rightarrow>
                (case map_assign (Members grp) target (RoleAt p) of
                   Inl e \<Rightarrow> Inl e
                 | Inr m \<Rightarrow>
                     (case add_permissions perms p h1 of
                        Inl e \<Rightarrow> Inl e
                      | Inr h' \<Rightarrow> Inr (grp\<lparr>Members := m\<rparr>, h'))))))"

fun AddPermission_Apply ::
    "string list \<Rightarrow> Permission list \<Rightarrow> Group \<times> Heap \<Rightarrow> panic + Group \<times> Heap" where
  "AddPermission_Apply [] perms s = Inr s"
| "AddPermission_Apply (target # rest) perms s =
     (case AddPermission_target perms target s of
        Inl e \<Rightarrow> Inl e
      | Inr s' \<Rightarrow> AddPermission_Apply rest perms s')"

text \<open>\<open>delete(role.Permissions, perm)\<close> for every listed permission.\<close>

fun remove_permissions :: "Permission list \<Rightarrow> nat \<Rightarrow> Heap \<Rightarrow> Heap" where
  "remove_permissions [] p h = h"
| "remove_permissions (perm # rest) p h =
     remove_permissions rest p
       (h\<lparr>cells := (cells h)(p := (cells h p)
           \<lparr>Role.Permissions := map_delete (Role.Permissions (cells h p)) perm\<rparr>)\<rparr>)"

text \<open>
  The body of the loop of \<open>RemovePermission.Apply\<close> for one target. A target found with an
  owned role lives in a member map that is not nil, so the assignment of \<open>EmptyRole\<close>
  cannot panic.
\<close>

definition RemovePermission_target ::
    "Permission list \<Rightarrow> string \<Rightarrow> Group \<times> Heap \<Rightarrow> Group \<times> Heap" where
  "RemovePermission_target perms target s =
     (case s of (grp, h) \<Rightarrow>
        (case Members grp of
           None \<Rightarrow> (grp, h)
         | Some al \<Rightarrow>
             (case map_of al target of
                None \<Rightarrow> (grp, h)
              | Some NilRole \<Rightarrow> (grp, h)
              | Some (RoleAt p) \<Rightarrow>
                  (let h' = remove_permissions perms p h
                   in if Role.Name (cells h' p) = '''' \<and> map_len (Role.Permissions (cells h' p)) = 0
                      then (grp\<lparr>Members := Some (AList.update target EmptyRole al)\<rparr>, h')
                      else (grp, h')))))"

fun RemovePermission_Apply ::
    "string list \<Rightarrow> Permission list \<Rightarrow> Group \<times> Heap \<Rightarrow> Group \<times> Heap" where
  "RemovePermission_Apply [] perms s = s"
| "RemovePermission_Apply (target # rest) perms s =
     RemovePermission_Apply rest perms (RemovePermission_target perms target s)"

definition EditGroupStatus_Apply ::
    "bool \<Rightarrow> bool \<Rightarrow> bool \<Rightarrow> bool \<Rightarrow> Timestamp \<Rightarrow> Group \<Rightarrow> Group" where
  "EditGroupStatus_Apply Public Private' Open Closed' When grp =
     (let g1 = (if Public then grp\<lparr>Private := False\<rparr>
                else if Private' then grp\<lparr>Private := True\<rparr> else grp);
          g2 = (if Open then g1\<lparr>Closed := False\<rparr>
                else if Closed' then g1\<lparr>Closed := True\<rparr> else g1)
      in g2\<lparr>LastMetadataUpdate := When\<rparr>)"

fun Apply :: "Action \<Rightarrow> Group \<times> Heap \<Rightarrow> panic + Group \<times> Heap" where
  "Apply (DeleteEvent targets) (grp, h) = Inr (grp, h)"
| "Apply (AddUser targets) (grp, h) =
     (case AddUser_Apply targets grp of Inl e \<Rightarrow> Inl e | Inr grp' \<Rightarrow> Inr (grp', h))"
| "Apply (RemoveUser targets) (grp, h) = Inr (RemoveUser_Apply targets grp, h)"
| "Apply (EditMetadata n p a w) (grp, h) = Inr (EditMetadata_Apply n p a w grp, h)"
| "Apply (AddPermission targets perms) (grp, h) = AddPermission_Apply targets perms (grp, h)"
| "Apply (RemovePermission targets perms) (grp, h) =
     Inr (RemovePermission_Apply targets perms (grp, h))"
| "Apply (EditGroupStatus pu pr op cl w) (grp, h) =
     Inr (EditGroupStatus_Apply pu pr op cl w grp, h)"

section \<open>Observations used in the statements\<close>

text \<open>The permissions a role holds, as a set: the keys of its permission map.\<close>

definition permission_set :: "Role \<Rightarrow> Permission set" where
  "permission_set r = fst ` set (map_entries (Role.Permissions r))"

text \<open>
  A state is well allocated when the member map is not nil and every role a member points
  to is an object made earlier (its address lies below the next unused one) with a
  permission map that is not nil, as \<open>AddPermission.Apply\<close> makes them.
\<close>

definition roles_allocated :: "Group \<times> Heap \<Rightarrow> bool" where
  "roles_allocated s =
     (case s of (grp, h) \<Rightarrow>
        Members grp \<noteq> None
        \<and> list_all (\<lambda>(member, r). case r of
                NilRole \<Rightarrow> True
              | RoleAt p \<Rightarrow> p < fresh h \<and> Role.Permissions (cells h p) \<noteq> None)
            (map_entries (Members grp)))"

text \<open>The store before any role object has been made; every cell holds the zero role.\<close>

definition Heap_empty :: Heap where
  "Heap_empty = \<lparr>cells = (\<lambda>p. \<lparr>Role.Name = '''', Permissions = None\<rparr>), fresh = 0\<rparr>"


text \<open>
  The round trip of the spec: a fresh aggregate is the zero value with its three
  timestamps at the least value; the three projections of a group are folded into it,
  metadata first, then admins, then members. The admin-list projection can panic, and then
  so does the round trip.
\<close>

definition Group_fresh :: Group where
  "Group_fresh = Group_zero\<lparr>LastMetadataUpdate := Timestamp_min,
     LastAdminsUpdate := Timestamp_min, LastMembersUpdate := Timestamp_min\<rparr>"

definition refold :: "Heap \<Rightarrow> Group \<Rightarrow> Group \<Rightarrow> panic + Group" where
  "refold h grp target =
     (case ToAdminsEvent h grp of
        Inl e \<Rightarrow> Inl e
      | Inr admins \<Rightarrow>
          Inr (snd (MergeInMembersEvent (ToMembersEvent grp)
                 (snd (MergeInAdminsEvent admins
                    (snd (MergeInMetadataEvent (ToMetadataEvent grp) target)))))))"

section \<open>Properties of the merges, the projections and the actions\<close>

subsection \<open>Timestamps of the three categories\<close>

lemma admins_entries_id: "admins_entries tags grp = grp"
  by (induction tags) simp_all

lemma members_entries_id: "members_entries tags grp = grp"
  by (induction tags) simp_all

lemma sle_of_not_sle: "\<not> a \<le>s b \<Longrightarrow> b \<le>s (a :: Timestamp)"
  by (simp add: word_sle_eq)

lemma case_Name_update:
  "(case opt of Some tag \<Rightarrow> g\<lparr>Name := f tag\<rparr> | None \<Rightarrow> g)
     = g\<lparr>Name := (case opt of Some tag \<Rightarrow> f tag | None \<Rightarrow> Name g)\<rparr>"
  by (cases opt) simp_all

lemma case_About_update:
  "(case opt of Some tag \<Rightarrow> g\<lparr>About := f tag\<rparr> | None \<Rightarrow> g)
     = g\<lparr>About := (case opt of Some tag \<Rightarrow> f tag | None \<Rightarrow> About g)\<rparr>"
  by (cases opt) simp_all

lemma case_Picture_update:
  "(case opt of Some tag \<Rightarrow> g\<lparr>Picture := f tag\<rparr> | None \<Rightarrow> g)
     = g\<lparr>Picture := (case opt of Some tag \<Rightarrow> f tag | None \<Rightarrow> Picture g)\<rparr>"
  by (cases opt) simp_all

lemma case_Private_update:
  "(case opt of Some tag \<Rightarrow> g\<lparr>Private := True\<rparr> | None \<Rightarrow> g)
     = g\<lparr>Private := (opt \<noteq> None \<or> Private g)\<rparr>"
  by (cases opt) simp_all

lemma case_Closed_update:
  "(case opt of Some tag \<Rightarrow> g\<lparr>Closed := True\<rparr> | None \<Rightarrow> g)
     = g\<lparr>Closed := (opt \<noteq> None \<or> Closed g)\<rparr>"
  by (cases opt) simp_all

lemma MergeInMetadataEvent_accepted:
  assumes "Kind evt = KindSimpleGroupMetadata" and "\<not> CreatedAt evt \<le>s LastMetadataUpdate grp"
  shows "MergeInMetadataEvent evt grp =
     (None, grp\<lparr>ID := GetD (Tags evt),
        Name := (case GetFirst (Tags evt) [''name'', ''''] of
                   Some tag \<Rightarrow> tag ! 1 | None \<Rightarrow> GetD (Tags evt)),
        Picture := (case GetFirst (Tags evt) [''picture'', ''''] of
                   Some tag \<Rightarrow> tag ! 1 | None \<Rightarrow> Picture grp),
        About := (case GetFirst (Tags evt) [''about'', ''''] of
                   Some tag \<Rightarrow> tag ! 1 | None \<Rightarrow> About grp),
        Private := (GetFirst (Tags evt) [''private''] \<noteq> None \<or> Private grp),
        Closed := (GetFirst (Tags evt) [''closed''] \<noteq> None \<or> Closed grp),
        LastMetadataUpdate := CreatedAt evt\<rparr>)"
  using assms
  by (simp add: MergeInMetadataEvent_def Let_def case_Name_update case_About_update
        case_Picture_update case_Private_update case_Closed_update cong: option.case_cong)

lemma MergeInMetadataEvent_rejected:
  "Kind evt \<noteq> KindSimpleGroupMetadata \<or> CreatedAt evt \<le>s LastMetadataUpdate grp
     \<Longrightarrow> snd (MergeInMetadataEvent evt grp) = grp \<and> fst (MergeInMetadataEvent evt grp) \<noteq> None"
  by (auto simp add: MergeInMetadataEvent_def)


lemma MergeInMetadataEvent_timestamps:
  "timestamps_le grp (snd (MergeInMetadataEvent evt grp))"
proof (cases "Kind evt = KindSimpleGroupMetadata \<and> \<not> CreatedAt evt \<le>s LastMetadataUpdate grp")
  case True
  then have "LastMetadataUpdate grp \<le>s CreatedAt evt" by (simp add: sle_of_not_sle)
  with True show ?thesis
    by (simp add: MergeInMetadataEvent_accepted timestamps_le_def)
next
  case False
  then have "snd (MergeInMetadataEvent evt grp) = grp"
    using MergeInMetadataEvent_rejected by blast
  then show ?thesis by (simp add: timestamps_le_def)
qed

lemma MergeInAdminsEvent_eq:
  "MergeInAdminsEvent evt grp =
     (if Kind evt \<noteq> KindSimpleGroupAdmins
        then (Some (ExpectedKind KindSimpleGroupAdmins (Kind evt)), grp)
      else if CreatedAt evt \<le>s LastAdminsUpdate grp
        then (Some (OlderThanLastUpdate (CreatedAt evt) (LastAdminsUpdate grp)), grp)
      else (None, grp\<lparr>LastAdminsUpdate := CreatedAt evt\<rparr>))"
  by (simp add: MergeInAdminsEvent_def admins_entries_id)

lemma MergeInMembersEvent_eq:
  "MergeInMembersEvent evt grp =
     (if Kind evt \<noteq> KindSimpleGroupMembers
        then (Some (ExpectedKind KindSimpleGroupMembers (Kind evt)), grp)
      else if CreatedAt evt \<le>s LastMembersUpdate grp
        then (Some (OlderThanLastUpdate (CreatedAt evt) (LastMembersUpdate grp)), grp)
      else (None, grp\<lparr>LastMembersUpdate := CreatedAt evt\<rparr>))"
  by (simp add: MergeInMembersEvent_def members_entries_id)

lemma MergeInAdminsEvent_timestamps:
  "timestamps_le grp (snd (MergeInAdminsEvent evt grp))"
proof (cases "CreatedAt evt \<le>s LastAdminsUpdate grp")
  case True
  then show ?thesis by (simp add: MergeInAdminsEvent_eq timestamps_le_def)
next
  case False
  then have "LastAdminsUpdate grp \<le>s CreatedAt evt" by (rule sle_of_not_sle)
  with False show ?thesis by (simp add: MergeInAdminsEvent_eq timestamps_le_def)
qed

lemma MergeInMembersEvent_timestamps:
  "timestamps_le grp (snd (MergeInMembersEvent evt grp))"
proof (cases "CreatedAt evt \<le>s LastMembersUpdate grp")
  case True
  then show ?thesis by (simp add: MergeInMembersEvent_eq timestamps_le_def)
next
  case False
  then have "LastMembersUpdate grp \<le>s CreatedAt evt" by (rule sle_of_not_sle)
  with False show ?thesis by (simp add: MergeInMembersEvent_eq timestamps_le_def)
qed

lemma merge_snapshot_timestamps: "timestamps_le grp (snd (merge_snapshot s grp))"
  by (cases s)
     (simp_all add: MergeInMetadataEvent_timestamps MergeInAdminsEvent_timestamps
        MergeInMembersEvent_timestamps)

lemma timestamps_le_trans: "timestamps_le a b \<Longrightarrow> timestamps_le b c \<Longrightarrow> timestamps_le a c"
  unfolding timestamps_le_def by (meson signed.order_trans)

lemma snapshot_trace_above: "g' \<in> set (snapshot_trace ss grp) \<Longrightarrow> timestamps_le grp g'"
proof (induction ss arbitrary: grp)
  case Nil
  then show ?case by (simp add: timestamps_le_def)
next
  case (Cons s ss)
  from Cons.prems
  have "g' = grp \<or> g' \<in> set (snapshot_trace ss (snd (merge_snapshot s grp)))"
    by simp
  then show ?case
  proof
    assume "g' = grp"
    then show ?thesis by (simp add: timestamps_le_def)
  next
    assume "g' \<in> set (snapshot_trace ss (snd (merge_snapshot s grp)))"
    then have "timestamps_le (snd (merge_snapshot s grp)) g'" by (rule Cons.IH)
    with merge_snapshot_timestamps show ?thesis by (rule timestamps_le_trans)
  qed
qed

lemma snapshot_trace_sorted: "sorted_wrt timestamps_le (snapshot_trace ss grp)"
proof (induction ss arbitrary: grp)
  case Nil
  show ?case by simp
next
  case (Cons s ss)
  have "\<forall>x \<in> set (snapshot_trace ss (snd (merge_snapshot s grp))). timestamps_le grp x"
  proof
    fix x
    assume "x \<in> set (snapshot_trace ss (snd (merge_snapshot s grp)))"
    then have "timestamps_le (snd (merge_snapshot s grp)) x" by (rule snapshot_trace_above)
    with merge_snapshot_timestamps show "timestamps_le grp x" by (rule timestamps_le_trans)
  qed
  with Cons.IH show ?case by simp
qed

text \<open>
  Claim C3 (monotonicity and stale rejection): along every sequence of metadata, admins and
  members snapshot events folded into an aggregate, each of the three last-update
  timestamps is non-decreasing (the list of the states passed through is sorted by all
  three timestamps); and a snapshot whose timestamp is less than or equal to the recorded
  timestamp of its category is refused with an error and leaves the aggregate unchanged in
  every field.
\<close>

theorem snapshot_timestamps_monotone_stale_rejected:
  "sorted_wrt timestamps_le (snapshot_trace ss grp)
   \<and> (CreatedAt evt \<le>s LastMetadataUpdate grp
        \<longrightarrow> (\<exists>e. MergeInMetadataEvent evt grp = (Some e, grp)))
   \<and> (CreatedAt evt \<le>s LastAdminsUpdate grp
        \<longrightarrow> (\<exists>e. MergeInAdminsEvent evt grp = (Some e, grp)))
   \<and> (CreatedAt evt \<le>s LastMembersUpdate grp
        \<longrightarrow> (\<exists>e. MergeInMembersEvent evt grp = (Some e, grp)))"
  by (simp add: snapshot_trace_sorted MergeInMetadataEvent_def MergeInAdminsEvent_eq
        MergeInMembersEvent_eq)

theorem snapshot_timestamps_monotone_stale_rejected_witness:
  "CreatedAt \<lparr>Kind = KindSimpleGroupMetadata, CreatedAt = 3, Content = '''', Tags = [[''d'', ''grp1'']]\<rparr>
     \<le>s LastMetadataUpdate (Group_zero\<lparr>LastMetadataUpdate := 5, LastAdminsUpdate := 4, LastMembersUpdate := 3\<rparr>)
   \<and> (\<exists>e. MergeInMetadataEvent
          \<lparr>Kind = KindSimpleGroupMetadata, CreatedAt = 3, Content = '''', Tags = [[''d'', ''grp1'']]\<rparr>
          (Group_zero\<lparr>LastMetadataUpdate := 5, LastAdminsUpdate := 4, LastMembersUpdate := 3\<rparr>)
        = (Some e, Group_zero\<lparr>LastMetadataUpdate := 5, LastAdminsUpdate := 4, LastMembersUpdate := 3\<rparr>))
   \<and> CreatedAt \<lparr>Kind = KindSimpleGroupMetadata, CreatedAt = 3, Content = '''', Tags = [[''d'', ''grp1'']]\<rparr>
     \<le>s LastAdminsUpdate (Group_zero\<lparr>LastMetadataUpdate := 5, LastAdminsUpdate := 4, LastMembersUpdate := 3\<rparr>)
   \<and> (\<exists>e. MergeInAdminsEvent
          \<lparr>Kind = KindSimpleGroupMetadata, CreatedAt = 3, Content = '''', Tags = [[''d'', ''grp1'']]\<rparr>
          (Group_zero\<lparr>LastMetadataUpdate := 5, LastAdminsUpdate := 4, LastMembersUpdate := 3\<rparr>)
        = (Some e, Group_zero\<lparr>LastMetadataUpdate := 5, LastAdminsUpdate := 4, LastMembersUpdate := 3\<rparr>))
   \<and> CreatedAt \<lparr>Kind = KindSimpleGroupMetadata, CreatedAt = 3, Content = '''', Tags = [[''d'', ''grp1'']]\<rparr>
     \<le>s LastMembersUpdate (Group_zero\<lparr>LastMetadataUpdate := 5, LastAdminsUpdate := 4, LastMembersUpdate := 3\<rparr>)
   \<and> (\<exists>e. MergeInMembersEvent
          \<lparr>Kind = KindSimpleGroupMetadata, CreatedAt = 3, Content = '''', Tags = [[''d'', ''grp1'']]\<rparr>
          (Group_zero\<lparr>LastMetadataUpdate := 5, LastAdminsUpdate := 4, LastMembersUpdate := 3\<rparr>)
        = (Some e, Group_zero\<lparr>LastMetadataUpdate := 5, LastAdminsUpdate := 4, LastMembersUpdate := 3\<rparr>))"
  using snapshot_timestamps_monotone_stale_rejected
    [of "[]" "Group_zero\<lparr>LastMetadataUpdate := 5, LastAdminsUpdate := 4, LastMembersUpdate := 3\<rparr>"
        "\<lparr>Kind = KindSimpleGroupMetadata, CreatedAt = 3, Content = '''', Tags = [[''d'', ''grp1'']]\<rparr>"]
  by (simp add: word_sle_eq)

subsection \<open>The factories\<close>








text \<open>
  Claim C10 (edit-metadata overwrites all three fields): when the factory accepts an
  edit-metadata event, applying the action it returns sets name, about and picture of the
  aggregate to the values of the tags found and to the empty string for every tag that is
  absent, whatever the aggregate held before, and records the time of the event.
\<close>

theorem EditMetadata_resets_absent_fields:
  assumes "EditMetadata_factory evt = Inr a"
  shows "\<exists>grp'. Apply a (grp, h) = Inr (grp', h)
     \<and> Name grp' = (case GetFirst (Tags evt) [''name'', ''''] of
                      Some t \<Rightarrow> t ! 1 | None \<Rightarrow> '''')
     \<and> About grp' = (case GetFirst (Tags evt) [''about'', ''''] of
                      Some t \<Rightarrow> t ! 1 | None \<Rightarrow> '''')
     \<and> Picture grp' = (case GetFirst (Tags evt) [''picture'', ''''] of
                      Some t \<Rightarrow> t ! 1 | None \<Rightarrow> '''')
     \<and> LastMetadataUpdate grp' = CreatedAt evt"
  using assms
  by (auto simp add: EditMetadata_factory_def Let_def EditMetadata_Apply_def split: if_splits)

theorem EditMetadata_resets_absent_fields_witness:
  "EditMetadata_factory
     \<lparr>Kind = KindSimpleGroupEditMetadata, CreatedAt = 9, Content = '''',
      Tags = [[''name'', ''New name'']]\<rparr> = Inr (EditMetadata ''New name'' '''' '''' 9)
   \<and> (\<exists>grp'. Apply (EditMetadata ''New name'' '''' '''' 9)
          (Group_zero\<lparr>Name := ''Old name'', About := ''Old about'', Picture := ''old.png''\<rparr>,
           \<lparr>cells = (\<lambda>p. \<lparr>Role.Name = '''', Permissions = None\<rparr>), fresh = 0\<rparr>)
        = Inr (grp', \<lparr>cells = (\<lambda>p. \<lparr>Role.Name = '''', Permissions = None\<rparr>), fresh = 0\<rparr>)
      \<and> Name grp' = ''New name'' \<and> About grp' = '''' \<and> Picture grp' = ''''
      \<and> LastMetadataUpdate grp' = 9)"
proof -
  have f: "EditMetadata_factory
     \<lparr>Kind = KindSimpleGroupEditMetadata, CreatedAt = 9, Content = '''',
      Tags = [[''name'', ''New name'']]\<rparr> = Inr (EditMetadata ''New name'' '''' '''' 9)"
    by (simp add: EditMetadata_factory_def)
  show ?thesis
    using f EditMetadata_resets_absent_fields [OF f,
      of "Group_zero\<lparr>Name := ''Old name'', About := ''Old about'', Picture := ''old.png''\<rparr>"
         "\<lparr>cells = (\<lambda>p. \<lparr>Role.Name = '''', Permissions = None\<rparr>), fresh = 0\<rparr>"]
    by simp
qed

subsection \<open>Adding users\<close>

lemma update_update_same: "AList.update k v (AList.update k v al) = AList.update k v al"
  by (induction al) auto

lemma map_of_update_same: "map_of (AList.update k v al) k = Some v"
  by (simp add: update_conv')

text \<open>
  Claim C9 (idempotence of AddUser): applying \<open>AddUser([k])\<close> twice to an aggregate gives
  the same outcome as applying it once. On an aggregate whose member map is not nil both
  runs succeed, the member maps after one and after two applications are equal, and \<open>k\<close>
  holds the empty role; on the nil member map the first assignment already panics, in the
  single run as in the double run.
\<close>

theorem AddUser_idempotent:
  "(case Apply (AddUser [k]) (grp, h) of Inl e \<Rightarrow> Inl e | Inr s' \<Rightarrow> Apply (AddUser [k]) s')
     = Apply (AddUser [k]) (grp, h)
   \<and> (Members grp \<noteq> None \<longrightarrow>
        (\<exists>g1 g2. Apply (AddUser [k]) (grp, h) = Inr (g1, h)
           \<and> Apply (AddUser [k]) (g1, h) = Inr (g2, h)
           \<and> Members g2 = Members g1
           \<and> map_lookup (Members g1) k = Some EmptyRole))"
  by (cases "Members grp") (simp_all add: update_update_same map_of_update_same)

theorem AddUser_idempotent_witness:
  "Members (Group_zero\<lparr>Members := Some [(''bob'', RoleAt 0)]\<rparr>) \<noteq> None
   \<and> (\<exists>g1 g2. Apply (AddUser [''alice''])
          (Group_zero\<lparr>Members := Some [(''bob'', RoleAt 0)]\<rparr>,
           \<lparr>cells = (\<lambda>p. \<lparr>Role.Name = ''mod'', Permissions = Some []\<rparr>), fresh = 1\<rparr>)
        = Inr (g1, \<lparr>cells = (\<lambda>p. \<lparr>Role.Name = ''mod'', Permissions = Some []\<rparr>), fresh = 1\<rparr>)
      \<and> Apply (AddUser [''alice''])
          (g1, \<lparr>cells = (\<lambda>p. \<lparr>Role.Name = ''mod'', Permissions = Some []\<rparr>), fresh = 1\<rparr>)
        = Inr (g2, \<lparr>cells = (\<lambda>p. \<lparr>Role.Name = ''mod'', Permissions = Some []\<rparr>), fresh = 1\<rparr>)
      \<and> Members g2 = Members g1
      \<and> map_lookup (Members g1) ''alice'' = Some EmptyRole)"
  using AddUser_idempotent [of "''alice''" "Group_zero\<lparr>Members := Some [(''bob'', RoleAt 0)]\<rparr>"
      "\<lparr>cells = (\<lambda>p. \<lparr>Role.Name = ''mod'', Permissions = Some []\<rparr>), fresh = 1\<rparr>"]
  by simp

subsection \<open>Tag lookups\<close>

text \<open>
  A tag found with a pattern of a key and an empty value has a value at index 1, so the
  reads \<open>(*tag)[1]\<close> of the merges and factories stay in range.
\<close>

lemma StartsWith_key_value:
  "StartsWith tag [k, v] \<Longrightarrow> 2 \<le> length tag \<and> tag ! 0 = k"
proof (cases tag)
  case Nil
  assume "StartsWith tag [k, v]"
  with Nil show ?thesis by simp
next
  case (Cons t ts)
  assume "StartsWith tag [k, v]"
  with Cons show ?thesis by (cases ts) auto
qed

lemma GetFirst_Some:
  "GetFirst tags tagPrefix = Some tag \<Longrightarrow> tag \<in> set tags \<and> StartsWith tag tagPrefix"
  by (induction tags) (auto split: if_splits)

lemma GetFirst_key_value_in_range:
  "GetFirst tags [k, v] = Some tag \<Longrightarrow> 2 \<le> length tag \<and> tag ! 0 = k"
  using GetFirst_Some StartsWith_key_value by blast

subsection \<open>Admins and members snapshots\<close>

text \<open>
  Claim C6, as the spec states it, says that a snapshot with a malformed participant
  identifier is not accepted. The loops of the two merges skip such an entry with
  \<open>continue\<close> and raise no error: an admins event and a members event whose only \<open>p\<close>
  tag carries an identifier that is not a key are both accepted, and the timestamp is
  recorded.
\<close>

theorem snapshot_entries_not_validated_counterexample:
  "\<not> IsValidPublicKeyHex ''not-a-key''
   \<and> MergeInAdminsEvent
        \<lparr>Kind = KindSimpleGroupAdmins, CreatedAt = 1, Content = '''',
         Tags = [[''d'', ''grp1''], [''p'', ''not-a-key'', ''moderator'', ''add-user'']]\<rparr>
        Group_zero
       = (None, Group_zero\<lparr>LastAdminsUpdate := 1\<rparr>)
   \<and> MergeInMembersEvent
        \<lparr>Kind = KindSimpleGroupMembers, CreatedAt = 1, Content = '''',
         Tags = [[''d'', ''grp1''], [''p'', ''not-a-key'']]\<rparr>
        Group_zero
       = (None, Group_zero\<lparr>LastMembersUpdate := 1\<rparr>)"
  by (simp add: IsValidPublicKeyHex_def MergeInAdminsEvent_eq MergeInMembersEvent_eq
        Group_zero_def word_sle_eq)

text \<open>
  Claim C6, amended: an admins or members snapshot event of the right kind with a strictly
  newer timestamp is accepted whatever its entries are; the merge records the timestamp
  of the category and changes nothing else in the aggregate.
\<close>

theorem snapshot_accepted_whatever_entries:
  "(Kind evt = KindSimpleGroupAdmins \<and> LastAdminsUpdate grp <s CreatedAt evt
      \<longrightarrow> MergeInAdminsEvent evt grp = (None, grp\<lparr>LastAdminsUpdate := CreatedAt evt\<rparr>))
   \<and> (Kind evt = KindSimpleGroupMembers \<and> LastMembersUpdate grp <s CreatedAt evt
      \<longrightarrow> MergeInMembersEvent evt grp = (None, grp\<lparr>LastMembersUpdate := CreatedAt evt\<rparr>))"
  by (auto simp add: MergeInAdminsEvent_eq MergeInMembersEvent_eq word_sle_eq word_sless_alt)

theorem snapshot_accepted_whatever_entries_witness:
  "LastAdminsUpdate (Group_zero\<lparr>Members := Some [(''alice'', EmptyRole)]\<rparr>) <s 5
   \<and> MergeInAdminsEvent
        \<lparr>Kind = KindSimpleGroupAdmins, CreatedAt = 5, Content = '''',
         Tags = [[''d'', ''grp1''], [''p'', ''zz'', ''moderator'', ''add-user'']]\<rparr>
        (Group_zero\<lparr>Members := Some [(''alice'', EmptyRole)]\<rparr>)
       = (None, Group_zero\<lparr>Members := Some [(''alice'', EmptyRole)], LastAdminsUpdate := 5\<rparr>)
   \<and> LastMembersUpdate (Group_zero\<lparr>Members := Some [(''alice'', EmptyRole)]\<rparr>) <s 5
   \<and> MergeInMembersEvent
        \<lparr>Kind = KindSimpleGroupMembers, CreatedAt = 5, Content = '''',
         Tags = [[''d'', ''grp1''], [''p'', ''zz'']]\<rparr>
        (Group_zero\<lparr>Members := Some [(''alice'', EmptyRole)]\<rparr>)
       = (None, Group_zero\<lparr>Members := Some [(''alice'', EmptyRole)], LastMembersUpdate := 5\<rparr>)"
  using
    snapshot_accepted_whatever_entries [of
      "\<lparr>Kind = KindSimpleGroupAdmins, CreatedAt = 5, Content = '''',
         Tags = [[''d'', ''grp1''], [''p'', ''zz'', ''moderator'', ''add-user'']]\<rparr>"
      "Group_zero\<lparr>Members := Some [(''alice'', EmptyRole)]\<rparr>"]
    snapshot_accepted_whatever_entries [of
      "\<lparr>Kind = KindSimpleGroupMembers, CreatedAt = 5, Content = '''',
         Tags = [[''d'', ''grp1''], [''p'', ''zz'']]\<rparr>"
      "Group_zero\<lparr>Members := Some [(''alice'', EmptyRole)]\<rparr>"]
  by (simp add: Group_zero_def word_sless_alt KindSimpleGroupAdmins_def KindSimpleGroupMembers_def)

subsection \<open>The admin-list projection\<close>

lemma admin_tag_panics: "admin_tag member role = Inl (IndexOutOfRange 0 0)"
  by (simp add: admin_tag_def slice_assign_def)

lemma admins_tags_panics:
  "(member, RoleAt p) \<in> set entries \<Longrightarrow> admins_tags h entries tags = Inl (IndexOutOfRange 0 0)"
  by (induction h entries tags rule: admins_tags.induct) (auto simp add: admin_tag_panics)

lemma admins_tags_no_admin:
  "snd ` set entries \<subseteq> {EmptyRole} \<Longrightarrow> admins_tags h entries tags = Inr tags"
  by (induction h entries tags rule: admins_tags.induct) auto

text \<open>
  Claim C4 (admin-list projection): the projection is meant to emit one \<open>p\<close> tag per
  member with a role. On a group with one such member the code does not return an event:
  the tag slice has length 0 when \<open>tag[0]\<close> is written, and the projection panics.
\<close>

theorem ToAdminsEvent_panics_on_admin:
  "ToAdminsEvent
     (snd (new_role \<lparr>Role.Name = ''moderator'', Permissions = Some [(''add-user'', ())]\<rparr>
        Heap_empty))
     (Group_zero\<lparr>ID := ''grp1'', Members := Some [(''alice'', RoleAt 0)]\<rparr>)
   = Inl (IndexOutOfRange 0 0)"
  by (simp add: ToAdminsEvent_def admin_tag_def slice_assign_def Group_zero_def)

subsection \<open>The group id\<close>

lemma AddUser_Apply_ID: "AddUser_Apply targets grp = Inr grp' \<Longrightarrow> ID grp' = ID grp"
proof (induction targets arbitrary: grp)
  case Nil
  then show ?case by simp
next
  case (Cons target rest)
  then show ?case
    by (cases "Members grp") (auto split: sum.splits)
qed

lemma RemoveUser_Apply_ID: "ID (RemoveUser_Apply targets grp) = ID grp"
  by (induction targets arbitrary: grp) simp_all

lemma AddPermission_target_ID:
  "AddPermission_target perms target (grp, h) = Inr (grp', h') \<Longrightarrow> ID grp' = ID grp"
  by (auto simp add: AddPermission_target_def new_role_def
        split: option.splits RolePtr.splits sum.splits prod.splits)

lemma AddPermission_Apply_ID:
  "AddPermission_Apply targets perms s = Inr s' \<Longrightarrow> ID (fst s') = ID (fst s)"
proof (induction targets arbitrary: s)
  case Nil
  then show ?case by simp
next
  case (Cons target rest)
  from Cons.prems obtain s1 where
    s1: "AddPermission_target perms target s = Inr s1" and
    rest: "AddPermission_Apply rest perms s1 = Inr s'"
    by (auto split: sum.splits)
  from s1 have "ID (fst s1) = ID (fst s)"
    using AddPermission_target_ID [of perms target "fst s" "snd s" "fst s1" "snd s1"] by simp
  with Cons.IH [OF rest] show ?case by simp
qed

lemma RemovePermission_target_ID:
  "ID (fst (RemovePermission_target perms target s)) = ID (fst s)"
  by (simp add: RemovePermission_target_def Let_def
        split: prod.splits option.splits RolePtr.splits)

lemma RemovePermission_Apply_ID:
  "ID (fst (RemovePermission_Apply targets perms s)) = ID (fst s)"
  by (induction targets arbitrary: s) (simp_all add: RemovePermission_target_ID)

lemma Apply_ID: "Apply a (grp, h) = Inr (grp', h') \<Longrightarrow> ID grp' = ID grp"
proof (cases a)
  case (AddUser targets)
  assume "Apply a (grp, h) = Inr (grp', h')"
  with AddUser show ?thesis by (auto split: sum.splits dest: AddUser_Apply_ID)
next
  case (RemoveUser targets)
  assume "Apply a (grp, h) = Inr (grp', h')"
  with RemoveUser show ?thesis by (auto simp add: RemoveUser_Apply_ID)
next
  case (AddPermission targets perms)
  assume "Apply a (grp, h) = Inr (grp', h')"
  with AddPermission show ?thesis using AddPermission_Apply_ID [of targets perms "(grp, h)" "(grp', h')"]
    by simp
next
  case (RemovePermission targets perms)
  assume "Apply a (grp, h) = Inr (grp', h')"
  with RemovePermission show ?thesis
    using RemovePermission_Apply_ID [of targets perms "(grp, h)"] by auto
next
  case (DeleteEvent targets)
  assume "Apply a (grp, h) = Inr (grp', h')"
  with DeleteEvent show ?thesis by simp
next
  case (EditMetadata n p ab w)
  assume "Apply a (grp, h) = Inr (grp', h')"
  with EditMetadata show ?thesis by (auto simp add: EditMetadata_Apply_def)
next
  case (EditGroupStatus pu pr op cl w)
  assume "Apply a (grp, h) = Inr (grp', h')"
  with EditGroupStatus show ?thesis by (auto simp add: EditGroupStatus_Apply_def Let_def)
qed

lemma MergeInMetadataEvent_fst:
  "fst (MergeInMetadataEvent evt grp) = None \<longleftrightarrow>
     Kind evt = KindSimpleGroupMetadata \<and> \<not> CreatedAt evt \<le>s LastMetadataUpdate grp"
  by (simp add: MergeInMetadataEvent_def Let_def)

text \<open>
  Claim C2, as the spec states it, says that the id of a group never changes once a first
  metadata event has set it. Every accepted metadata event assigns the id again from its
  \<open>d\<close> tag: after a first event has set the id \<open>grp1\<close>, a newer event with another \<open>d\<close>
  tag is accepted and changes the id.
\<close>

theorem group_id_follows_metadata_snapshot_counterexample:
  "fst (MergeInMetadataEvent
          \<lparr>Kind = KindSimpleGroupMetadata, CreatedAt = 1, Content = '''',
           Tags = [[''d'', ''grp1'']]\<rparr> Group_zero) = None
   \<and> ID (snd (MergeInMetadataEvent
          \<lparr>Kind = KindSimpleGroupMetadata, CreatedAt = 1, Content = '''',
           Tags = [[''d'', ''grp1'']]\<rparr> Group_zero)) = ''grp1''
   \<and> fst (MergeInMetadataEvent
          \<lparr>Kind = KindSimpleGroupMetadata, CreatedAt = 2, Content = '''',
           Tags = [[''d'', ''other'']]\<rparr>
          (snd (MergeInMetadataEvent
            \<lparr>Kind = KindSimpleGroupMetadata, CreatedAt = 1, Content = '''',
             Tags = [[''d'', ''grp1'']]\<rparr> Group_zero))) = None
   \<and> ID (snd (MergeInMetadataEvent
          \<lparr>Kind = KindSimpleGroupMetadata, CreatedAt = 2, Content = '''',
           Tags = [[''d'', ''other'']]\<rparr>
          (snd (MergeInMetadataEvent
            \<lparr>Kind = KindSimpleGroupMetadata, CreatedAt = 1, Content = '''',
             Tags = [[''d'', ''grp1'']]\<rparr> Group_zero)))) = ''other''"
  by (simp add: MergeInMetadataEvent_fst MergeInMetadataEvent_accepted Group_zero_def GetD_def
        word_sle_eq)

text \<open>
  Claim C2, amended: no moderation action and no admins or members snapshot changes the id
  of the group; a refused metadata snapshot changes nothing; an accepted metadata snapshot
  sets the id to the value of the event's \<open>d\<close> tag (the empty string when there is none),
  so the id stays what it was exactly when the event carries the same id.
\<close>

theorem group_id_changed_only_by_metadata_snapshot:
  "(Apply a (grp, h) = Inr (grp', h') \<longrightarrow> ID grp' = ID grp)
   \<and> ID (snd (MergeInAdminsEvent evt grp)) = ID grp
   \<and> ID (snd (MergeInMembersEvent evt grp)) = ID grp
   \<and> (fst (MergeInMetadataEvent evt grp) = None
        \<longrightarrow> ID (snd (MergeInMetadataEvent evt grp)) = GetD (Tags evt))
   \<and> (fst (MergeInMetadataEvent evt grp) \<noteq> None
        \<longrightarrow> snd (MergeInMetadataEvent evt grp) = grp)"
proof -
  have "fst (MergeInMetadataEvent evt grp) \<noteq> None \<Longrightarrow> snd (MergeInMetadataEvent evt grp) = grp"
    using MergeInMetadataEvent_rejected [of evt grp] by (simp add: MergeInMetadataEvent_fst)
  moreover have "fst (MergeInMetadataEvent evt grp) = None
      \<Longrightarrow> ID (snd (MergeInMetadataEvent evt grp)) = GetD (Tags evt)"
    by (simp add: MergeInMetadataEvent_fst MergeInMetadataEvent_accepted)
  ultimately show ?thesis
    using Apply_ID [of a grp h grp' h']
    by (simp add: MergeInAdminsEvent_eq MergeInMembersEvent_eq)
qed

theorem group_id_changed_only_by_metadata_snapshot_witness:
  "Apply (AddUser [''alice'']) (Group_zero\<lparr>ID := ''grp1'', Members := Some []\<rparr>,
       \<lparr>cells = (\<lambda>p. \<lparr>Role.Name = '''', Permissions = None\<rparr>), fresh = 0\<rparr>)
     = Inr (Group_zero\<lparr>ID := ''grp1'', Members := Some [(''alice'', EmptyRole)]\<rparr>,
       \<lparr>cells = (\<lambda>p. \<lparr>Role.Name = '''', Permissions = None\<rparr>), fresh = 0\<rparr>)
   \<and> ID (Group_zero\<lparr>ID := ''grp1'', Members := Some [(''alice'', EmptyRole)]\<rparr>) = ''grp1''
   \<and> fst (MergeInMetadataEvent
          \<lparr>Kind = KindSimpleGroupMetadata, CreatedAt = 2, Content = '''',
           Tags = [[''d'', ''other'']]\<rparr>
          (Group_zero\<lparr>ID := ''grp1'', Members := Some []\<rparr>)) = None
   \<and> ID (snd (MergeInMetadataEvent
          \<lparr>Kind = KindSimpleGroupMetadata, CreatedAt = 2, Content = '''',
           Tags = [[''d'', ''other'']]\<rparr>
          (Group_zero\<lparr>ID := ''grp1'', Members := Some []\<rparr>))) = ''other''
   \<and> (\<exists>e. fst (MergeInMetadataEvent
          \<lparr>Kind = KindSimpleGroupMetadata, CreatedAt = 0, Content = '''',
           Tags = [[''d'', ''other'']]\<rparr>
          (Group_zero\<lparr>ID := ''grp1'', Members := Some []\<rparr>)) = Some e)
   \<and> snd (MergeInMetadataEvent
          \<lparr>Kind = KindSimpleGroupMetadata, CreatedAt = 0, Content = '''',
           Tags = [[''d'', ''other'']]\<rparr>
          (Group_zero\<lparr>ID := ''grp1'', Members := Some []\<rparr>))
       = Group_zero\<lparr>ID := ''grp1'', Members := Some []\<rparr>"
proof -
  have a: "Apply (AddUser [''alice'']) (Group_zero\<lparr>ID := ''grp1'', Members := Some []\<rparr>,
       \<lparr>cells = (\<lambda>p. \<lparr>Role.Name = '''', Permissions = None\<rparr>), fresh = 0\<rparr>)
     = Inr (Group_zero\<lparr>ID := ''grp1'', Members := Some [(''alice'', EmptyRole)]\<rparr>,
       \<lparr>cells = (\<lambda>p. \<lparr>Role.Name = '''', Permissions = None\<rparr>), fresh = 0\<rparr>)"
    by simp
  have ok: "fst (MergeInMetadataEvent
          \<lparr>Kind = KindSimpleGroupMetadata, CreatedAt = 2, Content = '''',
           Tags = [[''d'', ''other'']]\<rparr>
          (Group_zero\<lparr>ID := ''grp1'', Members := Some []\<rparr>)) = None"
    by (simp add: MergeInMetadataEvent_fst Group_zero_def word_sle_eq)
  have stale: "\<exists>e. fst (MergeInMetadataEvent
          \<lparr>Kind = KindSimpleGroupMetadata, CreatedAt = 0, Content = '''',
           Tags = [[''d'', ''other'']]\<rparr>
          (Group_zero\<lparr>ID := ''grp1'', Members := Some []\<rparr>)) = Some e"
    by (simp add: MergeInMetadataEvent_def Group_zero_def)
  show ?thesis
    using a ok stale
      group_id_changed_only_by_metadata_snapshot [where a = "AddUser [''alice'']"
        and grp = "Group_zero\<lparr>ID := ''grp1'', Members := Some []\<rparr>"
        and h = "\<lparr>cells = (\<lambda>p. \<lparr>Role.Name = '''', Permissions = None\<rparr>), fresh = 0\<rparr>"
        and grp' = "Group_zero\<lparr>ID := ''grp1'', Members := Some [(''alice'', EmptyRole)]\<rparr>"
        and h' = "\<lparr>cells = (\<lambda>p. \<lparr>Role.Name = '''', Permissions = None\<rparr>), fresh = 0\<rparr>"
        and evt = "\<lparr>Kind = KindSimpleGroupMetadata, CreatedAt = 2, Content = '''',
           Tags = [[''d'', ''other'']]\<rparr>"]
      group_id_changed_only_by_metadata_snapshot [where a = "AddUser [''alice'']"
        and grp = "Group_zero\<lparr>ID := ''grp1'', Members := Some []\<rparr>"
        and h = "\<lparr>cells = (\<lambda>p. \<lparr>Role.Name = '''', Permissions = None\<rparr>), fresh = 0\<rparr>"
        and grp' = "Group_zero\<lparr>ID := ''grp1'', Members := Some [(''alice'', EmptyRole)]\<rparr>"
        and h' = "\<lparr>cells = (\<lambda>p. \<lparr>Role.Name = '''', Permissions = None\<rparr>), fresh = 0\<rparr>"
        and evt = "\<lparr>Kind = KindSimpleGroupMetadata, CreatedAt = 0, Content = '''',
           Tags = [[''d'', ''other'']]\<rparr>"]
    by (simp add: GetD_def)
qed

subsection \<open>Removing permissions\<close>

lemma remove_permissions_other:
  "q \<noteq> p \<Longrightarrow> cells (remove_permissions perms p h) q = cells h q"
  by (induction perms arbitrary: h) simp_all

lemma remove_permissions_Name:
  "Role.Name (cells (remove_permissions perms p h) q) = Role.Name (cells h q)"
  by (induction perms arbitrary: h) simp_all

lemma permission_set_map_delete:
  "fst ` set (map_entries (map_delete m k)) = fst ` set (map_entries m) - {k}"
  by (cases m) (auto simp add: AList.delete_eq)

lemma remove_permissions_permission_set:
  "permission_set (cells (remove_permissions perms p h) p)
     = permission_set (cells h p) - set perms"
proof (induction perms arbitrary: h)
  case Nil
  show ?case by simp
next
  case (Cons perm rest)
  show ?case
    by (simp add: Cons.IH) (auto simp add: permission_set_def permission_set_map_delete)
qed

lemma map_len_0_iff: "map_len (Role.Permissions r) = 0 \<longleftrightarrow> permission_set r = {}"
  by (simp add: map_len_def permission_set_def)

lemma RemovePermission_target_Name:
  "Role.Name (cells (snd (RemovePermission_target perms target s)) q) = Role.Name (cells (snd s) q)"
  by (simp add: RemovePermission_target_def Let_def remove_permissions_Name
        split: prod.splits option.splits RolePtr.splits)

lemma RemovePermission_target_permission_set:
  "permission_set (cells (snd (RemovePermission_target perms target s)) q)
     \<subseteq> permission_set (cells (snd s) q)"
proof -
  have "\<And>p h. permission_set (cells (remove_permissions perms p h) q) \<subseteq> permission_set (cells h q)"
  proof -
    fix p h
    show "permission_set (cells (remove_permissions perms p h) q) \<subseteq> permission_set (cells h q)"
      by (cases "q = p") (auto simp add: remove_permissions_permission_set remove_permissions_other)
  qed
  then show ?thesis
    by (simp add: RemovePermission_target_def Let_def
        split: prod.splits option.splits RolePtr.splits)
qed

lemma RemovePermission_target_other_member:
  "t \<noteq> target \<Longrightarrow>
   map_lookup (Members (fst (RemovePermission_target perms target s))) t
     = map_lookup (Members (fst s)) t"
  by (simp add: RemovePermission_target_def Let_def update_conv'
        split: prod.splits option.splits RolePtr.splits)

lemma RemovePermission_target_empty_stays:
  "map_lookup (Members (fst s)) t = Some EmptyRole \<Longrightarrow>
   map_lookup (Members (fst (RemovePermission_target perms target s))) t = Some EmptyRole"
  by (auto simp add: RemovePermission_target_def Let_def update_conv'
        split: prod.splits option.splits RolePtr.splits)

lemma RemovePermission_target_named_stays:
  "map_lookup (Members (fst s)) t = Some (RoleAt p) \<Longrightarrow> Role.Name (cells (snd s) p) \<noteq> '''' \<Longrightarrow>
   map_lookup (Members (fst (RemovePermission_target perms target s))) t = Some (RoleAt p)"
  by (auto simp add: RemovePermission_target_def Let_def update_conv' remove_permissions_Name
        split: prod.splits option.splits RolePtr.splits)

lemma RemovePermission_target_drains:
  assumes "map_lookup (Members (fst s)) target = Some (RoleAt p)"
    and "Role.Name (cells (snd s) p) = ''''"
    and "permission_set (cells (snd s) p) \<subseteq> set perms"
  shows "map_lookup (Members (fst (RemovePermission_target perms target s))) target
           = Some EmptyRole"
proof -
  obtain grp h where s: "s = (grp, h)" by (cases s)
  from assms(1) s obtain al where al: "Members grp = Some al" "map_of al target = Some (RoleAt p)"
    by (cases "Members grp") auto
  have "permission_set (cells (remove_permissions perms p h) p) = {}"
    using assms(3) s by (auto simp add: remove_permissions_permission_set)
  then have "map_len (Role.Permissions (cells (remove_permissions perms p h) p)) = 0"
    by (simp add: map_len_0_iff)
  moreover have "Role.Name (cells (remove_permissions perms p h) p) = ''''"
    using assms(2) s by (simp add: remove_permissions_Name)
  ultimately show ?thesis
    using s al by (simp add: RemovePermission_target_def Let_def update_conv')
qed

lemma RemovePermission_Apply_empty_stays:
  "map_lookup (Members (fst s)) t = Some EmptyRole \<Longrightarrow>
   map_lookup (Members (fst (RemovePermission_Apply targets perms s))) t = Some EmptyRole"
  by (induction targets arbitrary: s) (simp_all add: RemovePermission_target_empty_stays)

lemma RemovePermission_Apply_named_stays:
  "map_lookup (Members (fst s)) t = Some (RoleAt p) \<Longrightarrow> Role.Name (cells (snd s) p) \<noteq> '''' \<Longrightarrow>
   map_lookup (Members (fst (RemovePermission_Apply targets perms s))) t = Some (RoleAt p)"
proof (induction targets arbitrary: s)
  case Nil
  then show ?case by simp
next
  case (Cons target rest)
  have "map_lookup (Members (fst (RemovePermission_target perms target s))) t = Some (RoleAt p)"
    using Cons.prems by (rule RemovePermission_target_named_stays)
  moreover have "Role.Name (cells (snd (RemovePermission_target perms target s)) p) \<noteq> ''''"
    using Cons.prems(2) by (simp add: RemovePermission_target_Name)
  ultimately show ?case by (simp add: Cons.IH)
qed

lemma RemovePermission_Apply_drains:
  "t \<in> set targets \<Longrightarrow> map_lookup (Members (fst s)) t = Some (RoleAt p) \<Longrightarrow>
   Role.Name (cells (snd s) p) = '''' \<Longrightarrow> permission_set (cells (snd s) p) \<subseteq> set perms \<Longrightarrow>
   map_lookup (Members (fst (RemovePermission_Apply targets perms s))) t = Some EmptyRole"
proof (induction targets arbitrary: s)
  case Nil
  then show ?case by simp
next
  case (Cons target rest)
  let ?s1 = "RemovePermission_target perms target s"
  show ?case
  proof (cases "target = t")
    case True
    have "map_lookup (Members (fst ?s1)) t = Some EmptyRole"
      using Cons.prems(2-4) True RemovePermission_target_drains [of s t p perms] by simp
    then show ?thesis by (simp add: RemovePermission_Apply_empty_stays)
  next
    case False
    with Cons.prems(1) have in_rest: "t \<in> set rest" by simp
    have look: "map_lookup (Members (fst ?s1)) t = Some (RoleAt p)"
      using False Cons.prems(2) by (simp add: RemovePermission_target_other_member)
    have name: "Role.Name (cells (snd ?s1) p) = ''''"
      using Cons.prems(3) by (simp add: RemovePermission_target_Name)
    have perm: "permission_set (cells (snd ?s1) p) \<subseteq> set perms"
      using Cons.prems(4) RemovePermission_target_permission_set [of perms target s p] by blast
    show ?thesis
      using Cons.IH [OF in_rest look name perm] by simp
  qed
qed

text \<open>
  Claim C5 (sentinel demotion on permission drain): when a target of \<open>RemovePermission\<close>
  holds an owned role without a name and the listed permissions cover the whole permission
  set of that role, the target holds the empty role, the nil pointer itself, after the
  action; when a member holds a named role, the action never replaces it, whatever is left
  of its permissions.
\<close>

theorem RemovePermission_demotes_unnamed_only:
  assumes "map_lookup (Members grp) target = Some (RoleAt p)"
  shows "(target \<in> set targets \<and> Role.Name (cells h p) = ''''
            \<and> permission_set (cells h p) \<subseteq> set perms
          \<longrightarrow> (\<exists>grp' h'. Apply (RemovePermission targets perms) (grp, h) = Inr (grp', h')
                 \<and> map_lookup (Members grp') target = Some EmptyRole))
       \<and> (Role.Name (cells h p) \<noteq> ''''
          \<longrightarrow> (\<exists>grp' h'. Apply (RemovePermission targets perms) (grp, h) = Inr (grp', h')
                 \<and> map_lookup (Members grp') target = Some (RoleAt p)
                 \<and> Role.Name (cells h' p) = Role.Name (cells h p)))"
proof (intro conjI impI)
  assume a: "target \<in> set targets \<and> Role.Name (cells h p) = ''''
            \<and> permission_set (cells h p) \<subseteq> set perms"
  obtain grp' h' where r: "RemovePermission_Apply targets perms (grp, h) = (grp', h')"
    by (cases "RemovePermission_Apply targets perms (grp, h)")
  have "map_lookup (Members (fst (RemovePermission_Apply targets perms (grp, h)))) target
          = Some EmptyRole"
    using a assms RemovePermission_Apply_drains [of target targets "(grp, h)" p perms] by simp
  with r show "\<exists>grp' h'. Apply (RemovePermission targets perms) (grp, h) = Inr (grp', h')
                 \<and> map_lookup (Members grp') target = Some EmptyRole"
    by simp
next
  assume a: "Role.Name (cells h p) \<noteq> ''''"
  obtain grp' h' where r: "RemovePermission_Apply targets perms (grp, h) = (grp', h')"
    by (cases "RemovePermission_Apply targets perms (grp, h)")
  have "map_lookup (Members (fst (RemovePermission_Apply targets perms (grp, h)))) target
          = Some (RoleAt p)"
    using a assms RemovePermission_Apply_named_stays [of "(grp, h)" target p targets perms] by simp
  moreover have "Role.Name (cells (snd (RemovePermission_Apply targets perms (grp, h))) p)
      = Role.Name (cells h p)"
  proof -
    have "\<And>s. Role.Name (cells (snd (RemovePermission_Apply targets perms s)) p)
        = Role.Name (cells (snd s) p)"
    proof -
      fix s
      show "Role.Name (cells (snd (RemovePermission_Apply targets perms s)) p)
        = Role.Name (cells (snd s) p)"
        by (induction targets arbitrary: s) (simp_all add: RemovePermission_target_Name)
    qed
    then show ?thesis by simp
  qed
  ultimately show "\<exists>grp' h'. Apply (RemovePermission targets perms) (grp, h) = Inr (grp', h')
                 \<and> map_lookup (Members grp') target = Some (RoleAt p)
                 \<and> Role.Name (cells h' p) = Role.Name (cells h p)"
    using r by simp
qed

theorem RemovePermission_demotes_unnamed_only_witness:
  "map_lookup (Members (Group_zero\<lparr>Members := Some [(''alice'', RoleAt 0)]\<rparr>)) ''alice''
     = Some (RoleAt 0)
   \<and> ''alice'' \<in> set [''alice'']
   \<and> permission_set \<lparr>Role.Name = '''', Permissions = Some [(''edit-metadata'', ())]\<rparr>
       \<subseteq> set [''edit-metadata'']
   \<and> (\<exists>grp' h'. Apply (RemovePermission [''alice''] [''edit-metadata''])
          (Group_zero\<lparr>Members := Some [(''alice'', RoleAt 0)]\<rparr>,
           \<lparr>cells = (\<lambda>q. \<lparr>Role.Name = '''', Permissions = Some [(''edit-metadata'', ())]\<rparr>),
            fresh = 1\<rparr>) = Inr (grp', h')
        \<and> map_lookup (Members grp') ''alice'' = Some EmptyRole)
   \<and> (\<exists>grp' h'. Apply (RemovePermission [''alice''] [''edit-metadata''])
          (Group_zero\<lparr>Members := Some [(''alice'', RoleAt 0)]\<rparr>,
           \<lparr>cells = (\<lambda>q. \<lparr>Role.Name = ''moderator'',
                               Permissions = Some [(''edit-metadata'', ())]\<rparr>),
            fresh = 1\<rparr>) = Inr (grp', h')
        \<and> map_lookup (Members grp') ''alice'' = Some (RoleAt 0)
        \<and> Role.Name (cells h' 0) = ''moderator'')"
proof -
  have look: "map_lookup (Members (Group_zero\<lparr>Members := Some [(''alice'', RoleAt 0)]\<rparr>)) ''alice''
     = Some (RoleAt 0)"
    by simp
  show ?thesis
    using look
      RemovePermission_demotes_unnamed_only [OF look, of "[''alice'']"
        "\<lparr>cells = (\<lambda>q. \<lparr>Role.Name = '''', Permissions = Some [(''edit-metadata'', ())]\<rparr>),
          fresh = 1\<rparr>" "[''edit-metadata'']"]
      RemovePermission_demotes_unnamed_only [OF look, of "[''alice'']"
        "\<lparr>cells = (\<lambda>q. \<lparr>Role.Name = ''moderator'',
                             Permissions = Some [(''edit-metadata'', ())]\<rparr>),
          fresh = 1\<rparr>" "[''edit-metadata'']"]
    by (simp add: permission_set_def)
qed

subsection \<open>Adding permissions\<close>

lemma add_permissions_effect:
  "Role.Permissions (cells h p) \<noteq> None \<Longrightarrow>
   \<exists>h'. add_permissions perms p h = Inr h'
      \<and> fresh h' = fresh h
      \<and> (\<forall>q. q \<noteq> p \<longrightarrow> cells h' q = cells h q)
      \<and> Role.Name (cells h' p) = Role.Name (cells h p)
      \<and> Role.Permissions (cells h' p) \<noteq> None
      \<and> permission_set (cells h' p) = permission_set (cells h p) \<union> set perms"
proof (induction perms arbitrary: h)
  case Nil
  then show ?case by simp
next
  case (Cons perm rest)
  from Cons.prems obtain al where al: "Role.Permissions (cells h p) = Some al" by auto
  let ?h1 = "h\<lparr>cells := (cells h)(p := (cells h p)
      \<lparr>Role.Permissions := Some (AList.update perm () al)\<rparr>)\<rparr>"
  have "Role.Permissions (cells ?h1 p) \<noteq> None" by simp
  from Cons.IH [OF this] obtain h' where h':
    "add_permissions rest p ?h1 = Inr h'"
    "fresh h' = fresh ?h1"
    "\<forall>q. q \<noteq> p \<longrightarrow> cells h' q = cells ?h1 q"
    "Role.Name (cells h' p) = Role.Name (cells ?h1 p)"
    "Role.Permissions (cells h' p) \<noteq> None"
    "permission_set (cells h' p) = permission_set (cells ?h1 p) \<union> set rest"
    by blast
  have "permission_set (cells ?h1 p) = insert perm (permission_set (cells h p))"
    using al by (simp add: permission_set_def dom_update)
  with h' al show ?case by simp
qed

lemma roles_allocated_iff:
  "roles_allocated (grp, h) \<longleftrightarrow>
     (\<exists>al. Members grp = Some al
        \<and> (\<forall>member q. (member, RoleAt q) \<in> set al
              \<longrightarrow> q < fresh h \<and> Role.Permissions (cells h q) \<noteq> None))"
  by (cases "Members grp")
     (auto simp add: roles_allocated_def list_all_iff split: RolePtr.splits prod.splits)

lemma roles_allocated_lookup:
  assumes "roles_allocated (grp, h)" and "map_lookup (Members grp) t = Some (RoleAt q)"
  shows "q < fresh h \<and> Role.Permissions (cells h q) \<noteq> None"
proof -
  from assms(1) obtain al where al: "Members grp = Some al"
    and bound: "\<forall>member q. (member, RoleAt q) \<in> set al
              \<longrightarrow> q < fresh h \<and> Role.Permissions (cells h q) \<noteq> None"
    by (auto simp add: roles_allocated_iff)
  from assms(2) al have "(t, RoleAt q) \<in> set al" by (simp add: map_of_SomeD)
  with bound show ?thesis by blast
qed

lemma set_update_cases:
  "x \<in> set (AList.update k v al) \<Longrightarrow> x = (k, v) \<or> x \<in> set al"
  by (induction al) (auto split: if_splits)

lemma AddPermission_target_existing:
  assumes ra: "roles_allocated (grp, h)"
    and look: "map_lookup (Members grp) t = Some (RoleAt p)"
  shows "\<exists>h'. AddPermission_target perms t (grp, h) = Inr (grp, h')
      \<and> roles_allocated (grp, h')
      \<and> fresh h' = fresh h
      \<and> (\<forall>q. q \<noteq> p \<longrightarrow> cells h' q = cells h q)
      \<and> Role.Name (cells h' p) = Role.Name (cells h p)
      \<and> permission_set (cells h' p) = permission_set (cells h p) \<union> set perms"
proof -
  from roles_allocated_lookup [OF ra look]
  have "Role.Permissions (cells h p) \<noteq> None" by simp
  from add_permissions_effect [OF this, of perms] obtain h' where h':
    "add_permissions perms p h = Inr h'"
    "fresh h' = fresh h"
    "\<forall>q. q \<noteq> p \<longrightarrow> cells h' q = cells h q"
    "Role.Name (cells h' p) = Role.Name (cells h p)"
    "Role.Permissions (cells h' p) \<noteq> None"
    "permission_set (cells h' p) = permission_set (cells h p) \<union> set perms"
    by blast
  have step: "AddPermission_target perms t (grp, h) = Inr (grp, h')"
    using look h'(1) by (simp add: AddPermission_target_def)
  have "roles_allocated (grp, h')"
    using ra h'(2,3,5) unfolding roles_allocated_iff by metis
  with step h' show ?thesis by blast
qed

lemma AddPermission_target_new:
  assumes ra: "roles_allocated (grp, h)"
    and look: "map_lookup (Members grp) t = None \<or> map_lookup (Members grp) t = Some EmptyRole"
  shows "\<exists>grp' h'. AddPermission_target perms t (grp, h) = Inr (grp', h')
      \<and> roles_allocated (grp', h')
      \<and> fresh h' = Suc (fresh h)
      \<and> map_lookup (Members grp') t = Some (RoleAt (fresh h))
      \<and> (\<forall>t'. t' \<noteq> t \<longrightarrow> map_lookup (Members grp') t' = map_lookup (Members grp) t')
      \<and> (\<forall>q. q \<noteq> fresh h \<longrightarrow> cells h' q = cells h q)
      \<and> Role.Name (cells h' (fresh h)) = ''''
      \<and> permission_set (cells h' (fresh h)) = set perms"
proof -
  from ra obtain al where al: "Members grp = Some al"
    and bound: "\<forall>member q. (member, RoleAt q) \<in> set al
              \<longrightarrow> q < fresh h \<and> Role.Permissions (cells h q) \<noteq> None"
    by (auto simp add: roles_allocated_iff)
  let ?p = "fresh h"
  let ?h1 = "h\<lparr>cells := (cells h)(?p := \<lparr>Role.Name = '''', Permissions = Some []\<rparr>),
               fresh := Suc ?p\<rparr>"
  let ?grp' = "grp\<lparr>Members := Some (AList.update t (RoleAt ?p) al)\<rparr>"
  have "Role.Permissions (cells ?h1 ?p) \<noteq> None" by simp
  from add_permissions_effect [OF this, of perms] obtain h' where h':
    "add_permissions perms ?p ?h1 = Inr h'"
    "fresh h' = fresh ?h1"
    "\<forall>q. q \<noteq> ?p \<longrightarrow> cells h' q = cells ?h1 q"
    "Role.Name (cells h' ?p) = Role.Name (cells ?h1 ?p)"
    "Role.Permissions (cells h' ?p) \<noteq> None"
    "permission_set (cells h' ?p) = permission_set (cells ?h1 ?p) \<union> set perms"
    by blast
  have step: "AddPermission_target perms t (grp, h) = Inr (?grp', h')"
    using look al h'(1) by (auto simp add: AddPermission_target_def new_role_def)
  have alloc: "roles_allocated (?grp', h')"
    unfolding roles_allocated_iff
  proof (intro exI conjI allI impI)
    show "Members ?grp' = Some (AList.update t (RoleAt ?p) al)" by simp
  next
    fix member q
    assume "(member, RoleAt q) \<in> set (AList.update t (RoleAt ?p) al)"
    then have "(member, RoleAt q) = (t, RoleAt ?p) \<or> (member, RoleAt q) \<in> set al"
      by (rule set_update_cases)
    then show "q < fresh h'"
    proof
      assume "(member, RoleAt q) = (t, RoleAt ?p)"
      with h'(2) show ?thesis by simp
    next
      assume "(member, RoleAt q) \<in> set al"
      with bound have "q < ?p" by blast
      with h'(2) show ?thesis by simp
    qed
  next
    fix member q
    assume "(member, RoleAt q) \<in> set (AList.update t (RoleAt ?p) al)"
    then have "(member, RoleAt q) = (t, RoleAt ?p) \<or> (member, RoleAt q) \<in> set al"
      by (rule set_update_cases)
    then show "Role.Permissions (cells h' q) \<noteq> None"
    proof
      assume "(member, RoleAt q) = (t, RoleAt ?p)"
      with h'(5) show ?thesis by simp
    next
      assume old: "(member, RoleAt q) \<in> set al"
      with bound have "q < ?p" "Role.Permissions (cells h q) \<noteq> None" by blast+
      with h'(3) show ?thesis by simp
    qed
  qed
  have others: "\<forall>t'. t' \<noteq> t \<longrightarrow> map_lookup (Members ?grp') t' = map_lookup (Members grp) t'"
    using al by (simp add: update_conv')
  have cells: "\<forall>q. q \<noteq> ?p \<longrightarrow> cells h' q = cells h q"
    using h'(3) by simp
  have "permission_set (cells h' ?p) = set perms"
    using h'(6) by (simp add: permission_set_def)
  moreover have "map_lookup (Members ?grp') t = Some (RoleAt ?p)"
    by (simp add: update_conv')
  moreover have "Role.Name (cells h' ?p) = ''''" using h'(4) by simp
  moreover have "fresh h' = Suc ?p" using h'(2) by simp
  ultimately show ?thesis using step alloc others cells by blast
qed

lemma AddPermission_target_total:
  assumes ra: "roles_allocated (grp, h)"
  shows "\<exists>grp' h'. AddPermission_target perms x (grp, h) = Inr (grp', h')
      \<and> roles_allocated (grp', h')
      \<and> fresh h \<le> fresh h'
      \<and> (\<forall>t'. t' \<noteq> x \<longrightarrow> map_lookup (Members grp') t' = map_lookup (Members grp) t')"
proof (cases "\<exists>q. map_lookup (Members grp) x = Some (RoleAt q)")
  case True
  then obtain q where q: "map_lookup (Members grp) x = Some (RoleAt q)" by blast
  from AddPermission_target_existing [OF ra q, of perms] show ?thesis by auto
next
  case False
  then have "map_lookup (Members grp) x = None \<or> map_lookup (Members grp) x = Some EmptyRole"
    by (cases "map_lookup (Members grp) x") (auto intro: RolePtr.exhaust)
  from AddPermission_target_new [OF ra this, of perms] show ?thesis by auto
qed

lemma AddPermission_target_keeps_owned:
  assumes ra: "roles_allocated (grp, h)"
    and look: "map_lookup (Members grp) t = Some (RoleAt p)"
    and sole: "\<forall>t'. t' \<noteq> t \<longrightarrow> map_lookup (Members grp) t' \<noteq> Some (RoleAt p)"
    and name: "Role.Name (cells h p) = ''''"
    and perm: "permission_set (cells h p) = set perms"
  shows "\<exists>grp' h'. AddPermission_target perms x (grp, h) = Inr (grp', h')
      \<and> roles_allocated (grp', h')
      \<and> fresh h \<le> fresh h'
      \<and> map_lookup (Members grp') t = Some (RoleAt p)
      \<and> (\<forall>t'. t' \<noteq> t \<longrightarrow> map_lookup (Members grp') t' \<noteq> Some (RoleAt p))
      \<and> Role.Name (cells h' p) = ''''
      \<and> permission_set (cells h' p) = set perms
      \<and> (\<forall>t'. t' \<noteq> x \<longrightarrow> map_lookup (Members grp') t' = map_lookup (Members grp) t')"
proof (cases "\<exists>q. map_lookup (Members grp) x = Some (RoleAt q)")
  case True
  then obtain q where q: "map_lookup (Members grp) x = Some (RoleAt q)" by blast
  from AddPermission_target_existing [OF ra q, of perms] obtain h' where h':
    "AddPermission_target perms x (grp, h) = Inr (grp, h')"
    "roles_allocated (grp, h')"
    "fresh h' = fresh h"
    "\<forall>r. r \<noteq> q \<longrightarrow> cells h' r = cells h r"
    "Role.Name (cells h' q) = Role.Name (cells h q)"
    "permission_set (cells h' q) = permission_set (cells h q) \<union> set perms"
    by blast
  have "Role.Name (cells h' p) = '''' \<and> permission_set (cells h' p) = set perms"
  proof (cases "q = p")
    case True
    with h'(5,6) name perm show ?thesis by simp
  next
    case False
    with h'(4) name perm show ?thesis by simp
  qed
  with h'(1,2,3) look sole show ?thesis by simp
next
  case False
  then have absent: "map_lookup (Members grp) x = None \<or> map_lookup (Members grp) x = Some EmptyRole"
    by (cases "map_lookup (Members grp) x") (auto intro: RolePtr.exhaust)
  from False look have xt: "x \<noteq> t" by auto
  from roles_allocated_lookup [OF ra look] have below: "p < fresh h" by simp
  from AddPermission_target_new [OF ra absent, of perms] obtain grp' h' where n:
    "AddPermission_target perms x (grp, h) = Inr (grp', h')"
    "roles_allocated (grp', h')"
    "fresh h' = Suc (fresh h)"
    "map_lookup (Members grp') x = Some (RoleAt (fresh h))"
    "\<forall>t'. t' \<noteq> x \<longrightarrow> map_lookup (Members grp') t' = map_lookup (Members grp) t'"
    "\<forall>q. q \<noteq> fresh h \<longrightarrow> cells h' q = cells h q"
    by blast
  have l: "map_lookup (Members grp') t = Some (RoleAt p)"
    using n(5) xt look by simp
  have s: "\<forall>t'. t' \<noteq> t \<longrightarrow> map_lookup (Members grp') t' \<noteq> Some (RoleAt p)"
  proof (intro allI impI)
    fix t'
    assume t': "t' \<noteq> t"
    show "map_lookup (Members grp') t' \<noteq> Some (RoleAt p)"
    proof (cases "t' = x")
      case True
      with n(4) below show ?thesis by simp
    next
      case False
      with n(5) sole t' show ?thesis by simp
    qed
  qed
  have c: "cells h' p = cells h p" using n(6) below by simp
  from n(1,2,3,5) l s c name perm show ?thesis by simp
qed

lemma AddPermission_Apply_keeps_owned:
  "roles_allocated (grp, h) \<Longrightarrow>
   map_lookup (Members grp) t = Some (RoleAt p) \<Longrightarrow>
   \<forall>t'. t' \<noteq> t \<longrightarrow> map_lookup (Members grp) t' \<noteq> Some (RoleAt p) \<Longrightarrow>
   Role.Name (cells h p) = '''' \<Longrightarrow>
   permission_set (cells h p) = set perms \<Longrightarrow>
   \<exists>grp' h'. AddPermission_Apply targets perms (grp, h) = Inr (grp', h')
      \<and> fresh h \<le> fresh h'
      \<and> map_lookup (Members grp') t = Some (RoleAt p)
      \<and> (\<forall>t'. t' \<noteq> t \<longrightarrow> map_lookup (Members grp') t' \<noteq> Some (RoleAt p))
      \<and> Role.Name (cells h' p) = ''''
      \<and> permission_set (cells h' p) = set perms
      \<and> (\<forall>t'. t' \<notin> set targets \<longrightarrow> map_lookup (Members grp') t' = map_lookup (Members grp) t')"
proof (induction targets arbitrary: grp h)
  case Nil
  then show ?case by simp
next
  case (Cons x rest)
  from AddPermission_target_keeps_owned [OF Cons.prems, of x] obtain g1 h1 where s1:
    "AddPermission_target perms x (grp, h) = Inr (g1, h1)"
    "roles_allocated (g1, h1)"
    "fresh h \<le> fresh h1"
    "map_lookup (Members g1) t = Some (RoleAt p)"
    "\<forall>t'. t' \<noteq> t \<longrightarrow> map_lookup (Members g1) t' \<noteq> Some (RoleAt p)"
    "Role.Name (cells h1 p) = ''''"
    "permission_set (cells h1 p) = set perms"
    "\<forall>t'. t' \<noteq> x \<longrightarrow> map_lookup (Members g1) t' = map_lookup (Members grp) t'"
    by blast
  from Cons.IH [OF s1(2) s1(4) s1(5) s1(6) s1(7)] obtain grp' h' where r:
    "AddPermission_Apply rest perms (g1, h1) = Inr (grp', h')"
    "fresh h1 \<le> fresh h'"
    "map_lookup (Members grp') t = Some (RoleAt p)"
    "\<forall>t'. t' \<noteq> t \<longrightarrow> map_lookup (Members grp') t' \<noteq> Some (RoleAt p)"
    "Role.Name (cells h' p) = ''''"
    "permission_set (cells h' p) = set perms"
    "\<forall>t'. t' \<notin> set rest \<longrightarrow> map_lookup (Members grp') t' = map_lookup (Members g1) t'"
    by blast
  have "AddPermission_Apply (x # rest) perms (grp, h) = Inr (grp', h')"
    using s1(1) r(1) by simp
  moreover have "fresh h \<le> fresh h'" using s1(3) r(2) by simp
  moreover have "\<forall>t'. t' \<notin> set (x # rest)
      \<longrightarrow> map_lookup (Members grp') t' = map_lookup (Members grp) t'"
    using s1(8) r(7) by simp
  ultimately show ?case using r(3-6) by blast
qed

lemma AddPermission_Apply_allocates:
  "roles_allocated (grp, h) \<Longrightarrow> t \<in> set targets \<Longrightarrow>
   map_lookup (Members grp) t = None \<or> map_lookup (Members grp) t = Some EmptyRole \<Longrightarrow>
   \<exists>grp' h' p. AddPermission_Apply targets perms (grp, h) = Inr (grp', h')
      \<and> fresh h \<le> p \<and> p < fresh h'
      \<and> map_lookup (Members grp') t = Some (RoleAt p)
      \<and> (\<forall>t'. t' \<noteq> t \<longrightarrow> map_lookup (Members grp') t' \<noteq> Some (RoleAt p))
      \<and> Role.Name (cells h' p) = ''''
      \<and> permission_set (cells h' p) = set perms
      \<and> (\<forall>t'. t' \<notin> set targets \<longrightarrow> map_lookup (Members grp') t' = map_lookup (Members grp) t')"
proof (induction targets arbitrary: grp h)
  case Nil
  then show ?case by simp
next
  case (Cons x rest)
  show ?case
  proof (cases "x = t")
    case True
    from AddPermission_target_new [OF Cons.prems(1) Cons.prems(3), of perms]
    obtain g1 h1 where n:
      "AddPermission_target perms t (grp, h) = Inr (g1, h1)"
      "roles_allocated (g1, h1)"
      "fresh h1 = Suc (fresh h)"
      "map_lookup (Members g1) t = Some (RoleAt (fresh h))"
      "\<forall>t'. t' \<noteq> t \<longrightarrow> map_lookup (Members g1) t' = map_lookup (Members grp) t'"
      "Role.Name (cells h1 (fresh h)) = ''''"
      "permission_set (cells h1 (fresh h)) = set perms"
      by blast
    have sole: "\<forall>t'. t' \<noteq> t \<longrightarrow> map_lookup (Members g1) t' \<noteq> Some (RoleAt (fresh h))"
    proof (intro allI impI notI)
      fix t'
      assume "t' \<noteq> t" and "map_lookup (Members g1) t' = Some (RoleAt (fresh h))"
      with n(5) have "map_lookup (Members grp) t' = Some (RoleAt (fresh h))" by simp
      from roles_allocated_lookup [OF Cons.prems(1) this] show False by simp
    qed
    from AddPermission_Apply_keeps_owned [OF n(2) n(4) sole n(6) n(7), of rest]
    obtain grp' h' where r:
      "AddPermission_Apply rest perms (g1, h1) = Inr (grp', h')"
      "fresh h1 \<le> fresh h'"
      "map_lookup (Members grp') t = Some (RoleAt (fresh h))"
      "\<forall>t'. t' \<noteq> t \<longrightarrow> map_lookup (Members grp') t' \<noteq> Some (RoleAt (fresh h))"
      "Role.Name (cells h' (fresh h)) = ''''"
      "permission_set (cells h' (fresh h)) = set perms"
      "\<forall>t'. t' \<notin> set rest \<longrightarrow> map_lookup (Members grp') t' = map_lookup (Members g1) t'"
      by blast
    have "AddPermission_Apply (x # rest) perms (grp, h) = Inr (grp', h')"
      using True n(1) r(1) by simp
    moreover have "fresh h < fresh h'" using n(3) r(2) by simp
    moreover have "\<forall>t'. t' \<notin> set (x # rest)
        \<longrightarrow> map_lookup (Members grp') t' = map_lookup (Members grp) t'"
      using True n(5) r(7) by simp
    ultimately show ?thesis using r(3-6) by blast
  next
    case False
    with Cons.prems(2) have in_rest: "t \<in> set rest" by simp
    from AddPermission_target_total [OF Cons.prems(1), of perms x] obtain g1 h1 where s1:
      "AddPermission_target perms x (grp, h) = Inr (g1, h1)"
      "roles_allocated (g1, h1)"
      "fresh h \<le> fresh h1"
      "\<forall>t'. t' \<noteq> x \<longrightarrow> map_lookup (Members g1) t' = map_lookup (Members grp) t'"
      by blast
    have absent: "map_lookup (Members g1) t = None \<or> map_lookup (Members g1) t = Some EmptyRole"
      using s1(4) False Cons.prems(3) by simp
    from Cons.IH [OF s1(2) in_rest absent] obtain grp' h' p where r:
      "AddPermission_Apply rest perms (g1, h1) = Inr (grp', h')"
      "fresh h1 \<le> p" "p < fresh h'"
      "map_lookup (Members grp') t = Some (RoleAt p)"
      "\<forall>t'. t' \<noteq> t \<longrightarrow> map_lookup (Members grp') t' \<noteq> Some (RoleAt p)"
      "Role.Name (cells h' p) = ''''"
      "permission_set (cells h' p) = set perms"
      "\<forall>t'. t' \<notin> set rest \<longrightarrow> map_lookup (Members grp') t' = map_lookup (Members g1) t'"
      by blast
    have "AddPermission_Apply (x # rest) perms (grp, h) = Inr (grp', h')"
      using s1(1) r(1) by simp
    moreover have "fresh h \<le> p" using s1(3) r(2) by simp
    moreover have "\<forall>t'. t' \<notin> set (x # rest)
        \<longrightarrow> map_lookup (Members grp') t' = map_lookup (Members grp) t'"
      using s1(4) r(8) by simp
    ultimately show ?thesis using r(3-7) by blast
  qed
qed

text \<open>
  Claim C8, as the spec states it, speaks of every group. The zero value of \<open>Group\<close>,
  from which the spec lets a caller start, has a nil member map: the target \<open>pubkeyA\<close> is
  absent from it, the new role is made, and the assignment \<open>group.Members[target] = role\<close>
  panics, so the target ends without a role. A role object with a nil permission map
  stops the action in the same way at its first permission: with \<open>bob\<close> holding such a
  role, the action on \<open>bob\<close> and the absent \<open>alice\<close> panics before \<open>alice\<close> is reached.
\<close>

theorem AddPermission_nil_maps_counterexample:
  "map_lookup (Members (Group_zero\<lparr>ID := ''grp1''\<rparr>)) ''pubkeyA'' = None
   \<and> Apply (AddPermission [''pubkeyA''] [''edit-metadata''])
         (Group_zero\<lparr>ID := ''grp1''\<rparr>, Heap_empty)
       = Inl AssignmentToEntryInNilMap
   \<and> map_lookup (Members (Group_zero\<lparr>Members := Some [(''bob'', RoleAt 0)]\<rparr>)) ''alice''
       = None
   \<and> Apply (AddPermission [''bob'', ''alice''] [''add-user''])
         (Group_zero\<lparr>Members := Some [(''bob'', RoleAt 0)]\<rparr>,
          snd (new_role \<lparr>Role.Name = ''moderator'', Permissions = None\<rparr> Heap_empty))
       = Inl AssignmentToEntryInNilMap"
  by (simp add: Group_zero_def Heap_empty_def AddPermission_target_def new_role_def)

text \<open>
  Claim C8, amended: on a well allocated state (the member map is not nil, and every role
  a member points to is an object made earlier with a permission map that is not nil),
  for every target of an \<open>AddPermission\<close> action that is absent from the member map or
  holds the empty role, the action runs to its end and the target then points to a role
  object that did not exist before the action, that no other member points to, whose name
  is empty and whose permission set is exactly the set of the listed permissions (they
  were added to the new, empty role); members that are not targets keep what they had, so
  a member holding the empty role still holds it: nothing is written through the nil
  pointer.
\<close>

theorem AddPermission_allocates_owned_role:
  assumes "roles_allocated (grp, h)"
    and "target \<in> set targets"
    and "map_lookup (Members grp) target = None
         \<or> map_lookup (Members grp) target = Some EmptyRole"
  shows "\<exists>grp' h' p. Apply (AddPermission targets perms) (grp, h) = Inr (grp', h')
      \<and> fresh h \<le> p \<and> p < fresh h'
      \<and> map_lookup (Members grp') target = Some (RoleAt p)
      \<and> (\<forall>t. t \<noteq> target \<longrightarrow> map_lookup (Members grp') t \<noteq> Some (RoleAt p))
      \<and> Role.Name (cells h' p) = ''''
      \<and> permission_set (cells h' p) = set perms
      \<and> (\<forall>t. t \<notin> set targets \<longrightarrow> map_lookup (Members grp') t = map_lookup (Members grp) t)"
  using AddPermission_Apply_allocates [OF assms, of perms] by simp

theorem AddPermission_allocates_owned_role_witness:
  "roles_allocated
     (Group_zero\<lparr>Members := Some [(''bob'', RoleAt 0), (''carol'', EmptyRole)]\<rparr>,
      \<lparr>cells = (\<lambda>q. \<lparr>Role.Name = ''moderator'', Permissions = Some [(''add-user'', ())]\<rparr>),
       fresh = 1\<rparr>)
   \<and> ''alice'' \<in> set [''alice'', ''carol'']
   \<and> map_lookup (Members (Group_zero\<lparr>Members := Some [(''bob'', RoleAt 0),
          (''carol'', EmptyRole)]\<rparr>)) ''alice'' = None
   \<and> (\<exists>grp' h' p. Apply (AddPermission [''alice'', ''carol''] [''edit-metadata''])
          (Group_zero\<lparr>Members := Some [(''bob'', RoleAt 0), (''carol'', EmptyRole)]\<rparr>,
           \<lparr>cells = (\<lambda>q. \<lparr>Role.Name = ''moderator'',
                               Permissions = Some [(''add-user'', ())]\<rparr>),
            fresh = 1\<rparr>) = Inr (grp', h')
        \<and> 1 \<le> p \<and> p < fresh h'
        \<and> map_lookup (Members grp') ''alice'' = Some (RoleAt p)
        \<and> Role.Name (cells h' p) = ''''
        \<and> permission_set (cells h' p) = {''edit-metadata''}
        \<and> map_lookup (Members grp') ''bob'' = Some (RoleAt 0))"
proof -
  let ?g = "Group_zero\<lparr>Members := Some [(''bob'', RoleAt 0), (''carol'', EmptyRole)]\<rparr>"
  let ?h = "\<lparr>cells = (\<lambda>q. \<lparr>Role.Name = ''moderator'', Permissions = Some [(''add-user'', ())]\<rparr>),
       fresh = 1\<rparr>"
  have ra: "roles_allocated (?g, ?h)"
    by (simp add: roles_allocated_def)
  have mem: "''alice'' \<in> set [''alice'', ''carol'']" by simp
  have none: "map_lookup (Members ?g) ''alice'' = None" by simp
  then have ab: "map_lookup (Members ?g) ''alice'' = None
      \<or> map_lookup (Members ?g) ''alice'' = Some EmptyRole" by (rule disjI1)
  from AddPermission_allocates_owned_role [OF ra mem ab, of "[''edit-metadata'']"]
  obtain grp' h' p where r:
    "Apply (AddPermission [''alice'', ''carol''] [''edit-metadata'']) (?g, ?h) = Inr (grp', h')"
    "fresh ?h \<le> p" "p < fresh h'"
    "map_lookup (Members grp') ''alice'' = Some (RoleAt p)"
    "Role.Name (cells h' p) = ''''"
    "permission_set (cells h' p) = set [''edit-metadata'']"
    "\<forall>t. t \<notin> set [''alice'', ''carol'']
        \<longrightarrow> map_lookup (Members grp') t = map_lookup (Members ?g) t"
    by blast
  from r(7) have "map_lookup (Members grp') ''bob'' = map_lookup (Members ?g) ''bob''"
    by simp
  then have bob: "map_lookup (Members grp') ''bob'' = Some (RoleAt 0)" by simp
  from r(2) have p1: "1 \<le> p" by simp
  from r(6) have ps: "permission_set (cells h' p) = {''edit-metadata''}" by simp
  from ra mem none r(1) p1 r(3) r(4) r(5) ps bob show ?thesis by blast
qed

text \<open>
  On the zero value of \<open>Group\<close> the member map is nil, and the first assignment of
  \<open>AddUser.Apply\<close> or \<open>AddPermission.Apply\<close> panics.
\<close>

lemma AddUser_on_nil_member_map:
  "Apply (AddUser (k # ks)) (Group_zero, h) = Inl AssignmentToEntryInNilMap"
  by (simp add: Group_zero_def)

lemma AddPermission_on_nil_member_map:
  "Apply (AddPermission (k # ks) perms) (Group_zero, h) = Inl AssignmentToEntryInNilMap"
  by (simp add: Group_zero_def AddPermission_target_def new_role_def)

subsection \<open>Projecting and folding back\<close>

lemma GetD_ToMetadataEvent: "GetD (Tags (ToMetadataEvent grp)) = ID grp"
  by (simp add: GetD_def ToMetadataEvent_def)

lemma GetFirst_name_ToMetadataEvent:
  "GetFirst (Tags (ToMetadataEvent grp)) [''name'', ''''] =
     (if Name grp \<noteq> '''' then Some [''name'', Name grp] else None)"
  by (simp add: ToMetadataEvent_def)

lemma GetFirst_picture_ToMetadataEvent:
  "GetFirst (Tags (ToMetadataEvent grp)) [''picture'', ''''] =
     (if Picture grp \<noteq> '''' then Some [''picture'', Picture grp] else None)"
  by (simp add: ToMetadataEvent_def)

lemma GetFirst_private_ToMetadataEvent:
  "GetFirst (Tags (ToMetadataEvent grp)) [''private''] =
     (if Private grp then Some [''private''] else None)"
  by (simp add: ToMetadataEvent_def)

lemma GetFirst_closed_ToMetadataEvent:
  "GetFirst (Tags (ToMetadataEvent grp)) [''closed''] =
     (if Closed grp then Some [''closed''] else None)"
  by (simp add: ToMetadataEvent_def)

lemma MergeInMetadataEvent_ToMetadataEvent:
  assumes "LastMetadataUpdate target <s LastMetadataUpdate grp"
  shows "MergeInMetadataEvent (ToMetadataEvent grp) target =
     (None, target\<lparr>ID := ID grp,
        Name := (if Name grp = '''' then ID grp else Name grp),
        Picture := (if Picture grp = '''' then Picture target else Picture grp),
        About := (case GetFirst (Tags (ToMetadataEvent grp)) [''about'', ''''] of
                   Some tag \<Rightarrow> tag ! 1 | None \<Rightarrow> About target),
        Private := (Private grp \<or> Private target),
        Closed := (Closed grp \<or> Closed target),
        LastMetadataUpdate := LastMetadataUpdate grp\<rparr>)"
proof -
  have k: "Kind (ToMetadataEvent grp) = KindSimpleGroupMetadata"
    and c: "CreatedAt (ToMetadataEvent grp) = LastMetadataUpdate grp"
    by (simp_all add: ToMetadataEvent_def)
  from assms have fresh: "\<not> CreatedAt (ToMetadataEvent grp) \<le>s LastMetadataUpdate target"
    by (simp add: c word_sle_eq word_sless_alt)
  show ?thesis
    unfolding MergeInMetadataEvent_accepted [OF k fresh]
    by (simp add: GetD_ToMetadataEvent GetFirst_name_ToMetadataEvent
          GetFirst_picture_ToMetadataEvent GetFirst_private_ToMetadataEvent
          GetFirst_closed_ToMetadataEvent c)
qed

lemma MergeInAdminsEvent_fields:
  "ID (snd (MergeInAdminsEvent evt grp)) = ID grp"
  "Name (snd (MergeInAdminsEvent evt grp)) = Name grp"
  "Picture (snd (MergeInAdminsEvent evt grp)) = Picture grp"
  "About (snd (MergeInAdminsEvent evt grp)) = About grp"
  "Private (snd (MergeInAdminsEvent evt grp)) = Private grp"
  "Closed (snd (MergeInAdminsEvent evt grp)) = Closed grp"
  "Members (snd (MergeInAdminsEvent evt grp)) = Members grp"
  by (simp_all add: MergeInAdminsEvent_eq)

lemma MergeInMembersEvent_fields:
  "ID (snd (MergeInMembersEvent evt grp)) = ID grp"
  "Name (snd (MergeInMembersEvent evt grp)) = Name grp"
  "Picture (snd (MergeInMembersEvent evt grp)) = Picture grp"
  "About (snd (MergeInMembersEvent evt grp)) = About grp"
  "Private (snd (MergeInMembersEvent evt grp)) = Private grp"
  "Closed (snd (MergeInMembersEvent evt grp)) = Closed grp"
  "Members (snd (MergeInMembersEvent evt grp)) = Members grp"
  by (simp_all add: MergeInMembersEvent_eq)

lemma ToAdminsEvent_no_admin:
  assumes "list_all (\<lambda>(member, r). r = EmptyRole) (map_entries (Members grp))"
  shows "ToAdminsEvent h grp =
     Inr \<lparr>Kind = KindSimpleGroupAdmins, CreatedAt = LastAdminsUpdate grp, Content = '''',
          Tags = [[''d'', ID grp]]\<rparr>"
proof -
  from assms have "snd ` set (map_entries (Members grp)) \<subseteq> {EmptyRole}"
    by (auto simp add: list_all_iff)
  then show ?thesis
    by (simp add: ToAdminsEvent_def admins_tags_no_admin)
qed

lemma Timestamp_min_least: "Timestamp_min \<le>s t"
proof -
  have "sint Timestamp_min = - (2 ^ 63)"
    by (simp add: Timestamp_min_def)
  moreover have "- (2 ^ 63) \<le> sint t"
    using sint_ge [of t] by simp
  ultimately show ?thesis by (simp add: word_sle_eq)
qed

text \<open>
  Claim C1, as the spec states it, says that folding the three projections of a group into
  a fresh aggregate gives back its membership along with its metadata. The merges of the
  admins and the members event record a timestamp only: for a group with the one ordinary
  member \<open>alice\<close> the round trip returns the metadata of the group with a member map that
  is still nil, where \<open>alice\<close> is no member.
\<close>

theorem roundtrip_loses_membership_counterexample:
  "refold Heap_empty
     \<lparr>ID = ''grp1'', Name = ''Group one'', Picture = '''', About = '''',
      Members = Some [(''alice'', EmptyRole)], Private = False, Closed = False,
      LastMetadataUpdate = 10, LastAdminsUpdate = 10, LastMembersUpdate = 10\<rparr>
     Group_fresh
   = Inr \<lparr>ID = ''grp1'', Name = ''Group one'', Picture = '''', About = '''',
      Members = None, Private = False, Closed = False,
      LastMetadataUpdate = 10, LastAdminsUpdate = 10, LastMembersUpdate = 10\<rparr>
   \<and> map_lookup (Some [(''alice'', EmptyRole)]) ''alice'' = Some EmptyRole
   \<and> map_lookup (None :: (string, RolePtr) gomap) ''alice'' = None"
proof -
  let ?g = "\<lparr>ID = ''grp1'', Name = ''Group one'', Picture = '''', About = '''',
      Members = Some [(''alice'', EmptyRole)], Private = False, Closed = False,
      LastMetadataUpdate = 10, LastAdminsUpdate = 10, LastMembersUpdate = 10\<rparr>"
  have lt: "Timestamp_min <s 10"
    by (simp add: Timestamp_min_def word_sless_alt)
  then have m: "LastMetadataUpdate Group_fresh <s LastMetadataUpdate ?g"
    by (simp add: Group_fresh_def)
  have a: "ToAdminsEvent Heap_empty ?g
      = Inr \<lparr>Kind = KindSimpleGroupAdmins, CreatedAt = 10, Content = '''',
          Tags = [[''d'', ''grp1'']]\<rparr>"
    by (simp add: ToAdminsEvent_def)
  have nle: "\<not> (10 :: Timestamp) \<le>s Timestamp_min"
    using lt by (simp add: word_sle_eq word_sless_alt)
  show ?thesis
    unfolding refold_def a MergeInMetadataEvent_ToMetadataEvent [OF m]
    using nle
    by (simp add: MergeInAdminsEvent_eq MergeInMembersEvent_eq ToMembersEvent_def
          ToMetadataEvent_def Group_fresh_def Group_zero_def)
qed

text \<open>
  Claim C1, amended: for every group whose metadata timestamp lies above the least one,
  folding its metadata projection into a fresh aggregate is accepted and gives an aggregate
  with the id, the picture, the two status flags and the metadata timestamp of the group,
  and with its name when that is not empty (with the id as name otherwise); the fresh
  aggregate's member map stays nil. When no member of the group holds a role, the whole
  round trip of the three projections returns, with the same id, name, picture and flags
  and, again, a nil member map: membership is not restored by the merges. Nothing is said
  about the about field.
\<close>

theorem metadata_roundtrip_without_membership:
  assumes "Timestamp_min <s LastMetadataUpdate grp"
  shows "(\<exists>f. MergeInMetadataEvent (ToMetadataEvent grp) Group_fresh = (None, f)
            \<and> ID f = ID grp
            \<and> Name f = (if Name grp = '''' then ID grp else Name grp)
            \<and> Picture f = Picture grp
            \<and> Private f = Private grp \<and> Closed f = Closed grp
            \<and> LastMetadataUpdate f = LastMetadataUpdate grp
            \<and> Members f = None)
       \<and> (list_all (\<lambda>(member, r). r = EmptyRole) (map_entries (Members grp)) \<longrightarrow>
            (\<exists>f. refold h grp Group_fresh = Inr f
               \<and> ID f = ID grp
               \<and> Name f = (if Name grp = '''' then ID grp else Name grp)
               \<and> Picture f = Picture grp
               \<and> Private f = Private grp \<and> Closed f = Closed grp
               \<and> Members f = None))"
proof -
  from assms have m: "LastMetadataUpdate Group_fresh <s LastMetadataUpdate grp"
    by (simp add: Group_fresh_def)
  note merged = MergeInMetadataEvent_ToMetadataEvent [OF m]
  have first: "\<exists>f. MergeInMetadataEvent (ToMetadataEvent grp) Group_fresh = (None, f)
            \<and> ID f = ID grp
            \<and> Name f = (if Name grp = '''' then ID grp else Name grp)
            \<and> Picture f = Picture grp
            \<and> Private f = Private grp \<and> Closed f = Closed grp
            \<and> LastMetadataUpdate f = LastMetadataUpdate grp
            \<and> Members f = None"
    unfolding merged by (simp add: Group_fresh_def Group_zero_def)
  have second: "\<exists>f. refold h grp Group_fresh = Inr f
               \<and> ID f = ID grp
               \<and> Name f = (if Name grp = '''' then ID grp else Name grp)
               \<and> Picture f = Picture grp
               \<and> Private f = Private grp \<and> Closed f = Closed grp
               \<and> Members f = None"
    if "list_all (\<lambda>(member, r). r = EmptyRole) (map_entries (Members grp))"
    unfolding refold_def ToAdminsEvent_no_admin [OF that] merged
    by (simp add: MergeInAdminsEvent_fields MergeInMembersEvent_fields
          Group_fresh_def Group_zero_def)
  from first second show ?thesis by blast
qed

theorem metadata_roundtrip_without_membership_witness:
  "Timestamp_min <s LastMetadataUpdate
      \<lparr>ID = ''grp1'', Name = ''Group one'', Picture = ''one.png'', About = '''',
       Members = Some [(''alice'', EmptyRole)], Private = False, Closed = True,
       LastMetadataUpdate = 10, LastAdminsUpdate = 10, LastMembersUpdate = 10\<rparr>
   \<and> list_all (\<lambda>(member, r). r = EmptyRole) (map_entries (Members
      \<lparr>ID = ''grp1'', Name = ''Group one'', Picture = ''one.png'', About = '''',
       Members = Some [(''alice'', EmptyRole)], Private = False, Closed = True,
       LastMetadataUpdate = 10, LastAdminsUpdate = 10, LastMembersUpdate = 10\<rparr>))
   \<and> (\<exists>f. MergeInMetadataEvent (ToMetadataEvent
      \<lparr>ID = ''grp1'', Name = ''Group one'', Picture = ''one.png'', About = '''',
       Members = Some [(''alice'', EmptyRole)], Private = False, Closed = True,
       LastMetadataUpdate = 10, LastAdminsUpdate = 10, LastMembersUpdate = 10\<rparr>)
        Group_fresh = (None, f)
      \<and> ID f = ''grp1'' \<and> Name f = ''Group one'' \<and> Picture f = ''one.png''
      \<and> Private f = False \<and> Closed f = True \<and> LastMetadataUpdate f = 10
      \<and> Members f = None)
   \<and> (\<exists>f. refold Heap_empty
      \<lparr>ID = ''grp1'', Name = ''Group one'', Picture = ''one.png'', About = '''',
       Members = Some [(''alice'', EmptyRole)], Private = False, Closed = True,
       LastMetadataUpdate = 10, LastAdminsUpdate = 10, LastMembersUpdate = 10\<rparr>
        Group_fresh = Inr f
      \<and> ID f = ''grp1'' \<and> Name f = ''Group one'' \<and> Picture f = ''one.png''
      \<and> Private f = False \<and> Closed f = True \<and> Members f = None)"
proof -
  let ?g = "\<lparr>ID = ''grp1'', Name = ''Group one'', Picture = ''one.png'', About = '''',
       Members = Some [(''alice'', EmptyRole)], Private = False, Closed = True,
       LastMetadataUpdate = 10, LastAdminsUpdate = 10, LastMembersUpdate = 10\<rparr>"
  have lt: "Timestamp_min <s LastMetadataUpdate ?g"
    by (simp add: Timestamp_min_def word_sless_alt)
  have ordinary: "list_all (\<lambda>(member, r). r = EmptyRole) (map_entries (Members ?g))"
    by simp
  show ?thesis
    using lt ordinary
      metadata_roundtrip_without_membership [OF lt,
        of Heap_empty]
    by simp
qed

text \<open>
  The about tag of the metadata projection carries the name of the group, not its about
  text, so the about field does not survive the round trip in general.
\<close>

lemma ToMetadataEvent_about_tag:
  "About grp \<noteq> '''' \<Longrightarrow>
   GetFirst (Tags (ToMetadataEvent grp)) [''about'', ''''] = Some [''about'', Name grp]"
  by (simp add: ToMetadataEvent_def)

end
